theory Spec2Isabelle
  imports Main "HOL-Library.Word"
begin

section \<open>Values the script handles\<close>

text \<open>
  \<^verbatim>\<open>app.py\<close> is a Streamlit script: every user interaction runs it from top to bottom.
  Exceptions are values of type \<open>exn\<close>. The script distinguishes exactly two classes,
  by its handlers \<^verbatim>\<open>except ValueError\<close> (line 88) and \<^verbatim>\<open>except Exception\<close> (line 158):
  \<open>ValueError msg\<close> stands for an instance of \<^verbatim>\<open>ValueError\<close> or of one of its subclasses,
  \<open>OtherException cls msg\<close> for an instance of any other subclass of \<^verbatim>\<open>Exception\<close>.
\<close>

datatype exn = ValueError string | OtherException string string

fun str_exn :: "exn \<Rightarrow> string" where
  "str_exn (ValueError msg) = msg"
| "str_exn (OtherException cls msg) = msg"

type_synonym bytes = "8 word list"

text \<open>
  A Pillow image: its mode string, its size (width, height) and its pixels in row-major
  order. Pillow stores four bytes for every pixel of the modes with more than one band;
  an \<^verbatim>\<open>RGB\<close> pixel is (r, g, b, padding), an \<^verbatim>\<open>RGBA\<close> pixel is (r, g, b, a). A mode with a
  single band keeps its value in the first component.
\<close>

type_synonym band = "8 word"
type_synonym pixel = "band \<times> band \<times> band \<times> band"

record image =
  mode :: string
  size_im :: "nat \<times> nat"
  pixels :: "pixel list"

definition wf_image :: "image \<Rightarrow> bool" where
  "wf_image im = (length (pixels im) = fst (size_im im) * snd (size_im im))"

fun rgb_of :: "pixel \<Rightarrow> band \<times> band \<times> band" where
  "rgb_of (r, g, b, x) = (r, g, b)"

fun alpha_of :: "pixel \<Rightarrow> band" where
  "alpha_of (r, g, b, a) = a"

text \<open>
  What one run of the script puts on the page, in the order of the calls. Pictographs
  in the labels of the source are left out of the label texts.
\<close>

datatype element =
    Title string
  | Markdown string
  | SidebarHeader string
  | FileUploader string "string list"
  | SidebarSubheader string
  | Button string
  | ColorPicker string "string option" string
  | Selectbox string "string list"
  | Spinner string
  | Warning string
  | Header string
  | Info string
  | Cropper image "(nat \<times> nat) option" string
  | ImageShown image "string option"
  | DownloadButton string bytes string string
  | Error string
  | ErrorExn exn
  | ExceptionTrace exn

fun is_download :: "element \<Rightarrow> bool" where
  "is_download (DownloadButton l d f m) = True"
| "is_download _ = False"

fun is_notice :: "element \<Rightarrow> bool" where
  "is_notice (Spinner s) = True"
| "is_notice (Warning s) = True"
| "is_notice _ = False"

text \<open>
  The session state is Streamlit's dictionary \<^verbatim>\<open>st.session_state\<close>; the script uses the
  keys \<^verbatim>\<open>selected_color\<close> and \<^verbatim>\<open>color_picker_value\<close>.
\<close>

type_synonym session_state = "string \<rightharpoonup> string"

text \<open>The values the widgets return in one run.\<close>

record inputs =
  uploaded_file :: "(string \<times> bytes) option"
  red_button :: bool
  blue_button :: bool
  white_button :: bool
  crop_aspect_ratio_option :: string

text \<open>
  The library calls whose code is outside the script: \<^verbatim>\<open>Image.open\<close>, rembg's
  \<^verbatim>\<open>remove\<close>, \<^verbatim>\<open>Image.paste\<close> (on a copy of the target: the script pastes into an image
  nobody else holds), \<^verbatim>\<open>st_cropper\<close>, \<^verbatim>\<open>Image.convert\<close> and \<^verbatim>\<open>Image.save\<close> with
  format PNG. Each returns its result or the exception it raises.
\<close>

record env =
  image_open :: "bytes \<Rightarrow> exn + image"
  remove :: "image \<Rightarrow> exn + image"
  paste :: "image \<Rightarrow> image \<Rightarrow> int \<times> int \<Rightarrow> image option \<Rightarrow> exn + image"
  st_cropper :: "image \<Rightarrow> (nat \<times> nat) option \<Rightarrow> string \<Rightarrow> exn + image option"
  convert :: "image \<Rightarrow> string \<Rightarrow> exn + image"
  save_png :: "image \<Rightarrow> exn + bytes"

section \<open>Python built-ins used by the script\<close>

text \<open>\<^verbatim>\<open>s.lstrip("#")\<close> and the slice \<^verbatim>\<open>s[i : i + 2]\<close>.\<close>

definition lstrip :: "char \<Rightarrow> string \<Rightarrow> string" where
  "lstrip ch s = dropWhile (\<lambda>c. c = ch) s"

definition slice2 :: "string \<Rightarrow> nat \<Rightarrow> string" where
  "slice2 s i = take 2 (drop i s)"

text \<open>
  \<^verbatim>\<open>int(s, 16)\<close> on a string of code points below 256: white space around the literal,
  an optional sign, an optional \<^verbatim>\<open>0x\<close> prefix, hexadecimal digits with single
  underscores between them.
\<close>

definition py_isspace :: "char \<Rightarrow> bool" where
  "py_isspace c = ((of_char c :: nat) \<in> {9, 10, 11, 12, 13, 32, 133, 160})"

definition digit16 :: "char \<Rightarrow> nat option" where
  "digit16 c =
     (let n = (of_char c :: nat) in
      if 48 \<le> n \<and> n \<le> 57 then Some (n - 48)
      else if 97 \<le> n \<and> n \<le> 102 then Some (n - 87)
      else if 65 \<le> n \<and> n \<le> 70 then Some (n - 55)
      else None)"

fun scan_digits :: "bool \<Rightarrow> int \<Rightarrow> string \<Rightarrow> (int \<times> string) option" where
  "scan_digits prev_us acc [] = (if prev_us then None else Some (acc, []))"
| "scan_digits prev_us acc (c # cs) =
     (if c = CHR ''_'' then (if prev_us then None else scan_digits True acc cs)
      else (case digit16 c of
              Some d \<Rightarrow> scan_digits False (16 * acc + int d) cs
            | None \<Rightarrow> (if prev_us then None else Some (acc, c # cs))))"

definition skip_prefix16 :: "string \<Rightarrow> string" where
  "skip_prefix16 s =
     (case s of
        c0 # c1 # r \<Rightarrow>
          (if c0 = CHR ''0'' \<and> (c1 = CHR ''x'' \<or> c1 = CHR ''X'')
           then (case r of u # r' \<Rightarrow> (if u = CHR ''_'' then r' else r) | [] \<Rightarrow> r)
           else s)
      | _ \<Rightarrow> s)"

definition invalid_literal :: "string \<Rightarrow> exn" where
  "invalid_literal s =
     ValueError (''invalid literal for int() with base 16: '' @ [CHR 0x27] @ s @ [CHR 0x27])"

definition py_int16 :: "string \<Rightarrow> exn + int" where
  "py_int16 s =
     (let s1 = dropWhile py_isspace s;
          sign_rest = (case s1 of
                         [] \<Rightarrow> (1, s1)
                       | c # r \<Rightarrow> (if c = CHR ''+'' then (1, r)
                                  else if c = CHR ''-'' then (- 1, r) else (1, s1)));
          s3 = skip_prefix16 (snd sign_rest)
      in (case s3 of
            [] \<Rightarrow> Inl (invalid_literal s)
          | c # r \<Rightarrow>
              (if c = CHR ''_'' then Inl (invalid_literal s)
               else (case scan_digits False 0 s3 of
                       None \<Rightarrow> Inl (invalid_literal s)
                     | Some (v, rest) \<Rightarrow>
                         (if length rest = length s3 \<or> dropWhile py_isspace rest \<noteq> []
                          then Inl (invalid_literal s)
                          else Inr (fst sign_rest * v))))))"

text \<open>\<^verbatim>\<open>s.rsplit(sep, 1)\<close> for a one-character separator.\<close>

definition rsplit1 :: "char \<Rightarrow> string \<Rightarrow> string list" where
  "rsplit1 sep s =
     (if sep \<in> set s
      then [rev (tl (dropWhile (\<lambda>c. c \<noteq> sep) (rev s))), rev (takeWhile (\<lambda>c. c \<noteq> sep) (rev s))]
      else [s])"

section \<open>Pillow operations\<close>

text \<open>
  \<^verbatim>\<open>Image.new("RGB", size, color)\<close> with a tuple of three integers: every band is
  clipped to 0..255, the padding byte is 255.
\<close>

definition clip8 :: "int \<Rightarrow> band" where
  "clip8 v = (if v \<le> 0 then 0 else if v < 256 then word_of_int v else 255)"

definition Image_new_RGB :: "nat \<times> nat \<Rightarrow> int \<times> int \<times> int \<Rightarrow> image" where
  "Image_new_RGB sz color =
     (case color of (r, g, b) \<Rightarrow>
        \<lparr>mode = ''RGB'', size_im = sz,
         pixels = replicate (fst sz * snd sz) (clip8 r, clip8 g, clip8 b, 255)\<rparr>)"

text \<open>
  The blending of Pillow's \<^verbatim>\<open>Paste.c\<close>: \<^verbatim>\<open>DIV255(a) = (tmp = a + 128, ((tmp >> 8) + tmp) >> 8)\<close>,
  \<^verbatim>\<open>BLEND(mask, in1, in2) = DIV255(in1 * (255 - mask) + in2 * mask)\<close> and
  \<^verbatim>\<open>PREBLEND(mask, in1, in2) = MULDIV255(in1, 255 - mask) + in2\<close>, the results stored in a byte.
\<close>

definition div255 :: "nat \<Rightarrow> nat" where
  "div255 a = (let tmp = a + 128 in (tmp div 256 + tmp) div 256)"

definition blend :: "band \<Rightarrow> band \<Rightarrow> band \<Rightarrow> band" where
  "blend m in1 in2 = of_nat (div255 (unat in1 * (255 - unat m) + unat in2 * unat m))"

definition preblend :: "band \<Rightarrow> band \<Rightarrow> band \<Rightarrow> band" where
  "preblend m in1 in2 = of_nat (div255 (unat in1 * (255 - unat m))) + in2"

fun map_pixel2 :: "(band \<Rightarrow> band \<Rightarrow> band) \<Rightarrow> pixel \<Rightarrow> pixel \<Rightarrow> pixel" where
  "map_pixel2 f (a, b, c, d) (a', b', c', d') = (f a a', f b b', f c c', f d d')"

text \<open>
  How one pixel of the target is rewritten, by the mode of the mask: no mask copies the
  source; a mask of mode \<^verbatim>\<open>1\<close> copies where the mask is set; \<^verbatim>\<open>L\<close> blends by the mask's
  value; \<^verbatim>\<open>LA\<close> and \<^verbatim>\<open>RGBA\<close> blend by the mask's alpha band; \<^verbatim>\<open>RGBa\<close> blends a
  premultiplied source. Any other mode raises \<^verbatim>\<open>ValueError("bad transparency mask")\<close>.
  The arguments of the rule are the target pixel, the source pixel and the mask pixel.
\<close>

definition paste_rule :: "string option \<Rightarrow> exn + (pixel \<Rightarrow> pixel \<Rightarrow> pixel \<Rightarrow> pixel)" where
  "paste_rule mask_mode =
     (case mask_mode of
        None \<Rightarrow> Inr (\<lambda>out inp m. inp)
      | Some mm \<Rightarrow>
          (if mm = ''1'' then Inr (\<lambda>out inp m. if fst m \<noteq> 0 then inp else out)
           else if mm = ''L'' then Inr (\<lambda>out inp m. map_pixel2 (blend (fst m)) out inp)
           else if mm = ''LA'' \<or> mm = ''RGBA'' then
             Inr (\<lambda>out inp m. map_pixel2 (blend (alpha_of m)) out inp)
           else if mm = ''RGBa'' then
             Inr (\<lambda>out inp m. map_pixel2 (preblend (alpha_of m)) out inp)
           else Inl (ValueError ''bad transparency mask'')))"

definition pixelsize :: "string \<Rightarrow> nat" where
  "pixelsize m =
     (if m = ''1'' \<or> m = ''L'' \<or> m = ''P'' then 1
      else if take 4 m = ''I;16'' then 2 else 4)"

text \<open>
  \<^verbatim>\<open>ImagingPaste\<close>: the region is the box of the source's size at (dx, dy), clipped to the
  target; a source or a mask of another size raises \<^verbatim>\<open>ValueError("images do not match")\<close>.
  When the clipped region is empty the target is returned as it is, before the mode of
  the mask is looked at.
\<close>

definition imaging_paste ::
  "image \<Rightarrow> image \<Rightarrow> int \<times> int \<Rightarrow> nat \<times> nat \<Rightarrow> image option \<Rightarrow> exn + image" where
  "imaging_paste out src box region msk =
     (case box of (dx, dy) \<Rightarrow> case region of (w, h) \<Rightarrow>
        if size_im src \<noteq> (w, h) \<or> pixelsize (mode out) \<noteq> pixelsize (mode src)
        then Inl (ValueError ''images do not match'')
        else if (case msk of None \<Rightarrow> False | Some m \<Rightarrow> size_im m \<noteq> (w, h))
        then Inl (ValueError ''images do not match'')
        else if min (dx + int w) (int (fst (size_im out))) - max dx 0 \<le> 0
                \<or> min (dy + int h) (int (snd (size_im out))) - max dy 0 \<le> 0
        then Inr out
        else (case paste_rule (map_option mode msk) of
                Inl e \<Rightarrow> Inl e
              | Inr f \<Rightarrow>
                  Inr (out\<lparr>pixels :=
                    map (\<lambda>i.
                      let x = int (i mod fst (size_im out));
                          y = int (i div fst (size_im out))
                      in if dx \<le> x \<and> x < dx + int w \<and> dy \<le> y \<and> y < dy + int h
                         then (let j = nat ((y - dy) * int w + (x - dx))
                               in f (pixels out ! i) (pixels src ! j)
                                    (case msk of None \<Rightarrow> pixels src ! j
                                     | Some m \<Rightarrow> pixels m ! j))
                         else pixels out ! i)
                      [0..<length (pixels out)]\<rparr>)))"

text \<open>
  \<^verbatim>\<open>Image.paste(im, box, mask)\<close> with a two-element box: a source of another mode is
  converted to the target's mode first, except that an \<^verbatim>\<open>RGB\<close> target takes \<^verbatim>\<open>LA\<close>,
  \<^verbatim>\<open>RGBA\<close> and \<^verbatim>\<open>RGBa\<close> sources as they are. The conversion is a parameter.
\<close>

definition pil_paste ::
  "(image \<Rightarrow> string \<Rightarrow> exn + image) \<Rightarrow> image \<Rightarrow> image \<Rightarrow> int \<times> int \<Rightarrow> image option
     \<Rightarrow> exn + image" where
  "pil_paste conv self im box msk =
     (case (if mode self \<noteq> mode im \<and>
               (mode self \<noteq> ''RGB'' \<or> mode im \<notin> {''LA'', ''RGBA'', ''RGBa''})
            then conv im (mode self) else Inr im) of
        Inl e \<Rightarrow> Inl e
      | Inr src \<Rightarrow> imaging_paste self src box (size_im im) msk)"

section \<open>The script\<close>

text \<open>
  A step of the script returns its value or the exception that leaves it, together with
  the Streamlit calls it has made. \<open>then_do\<close> runs a second step after a first one that
  returned, and stops at the first exception.
\<close>

type_synonym 'a step = "(exn + 'a) \<times> element list"

definition then_do :: "'a step \<Rightarrow> ('a \<Rightarrow> 'b step) \<Rightarrow> 'b step" where
  "then_do m f =
     (case m of
        (Inl e, ui) \<Rightarrow> (Inl e, ui)
      | (Inr x, ui) \<Rightarrow> (case f x of (r, ui') \<Rightarrow> (r, ui @ ui')))"

subsection \<open>Colour state (lines 19-50)\<close>

definition init_session :: "session_state \<Rightarrow> session_state" where
  "init_session st =
     (if st ''selected_color'' = None then st(''selected_color'' \<mapsto> ''#FFFFFF'') else st)"

definition preset_buttons :: "inputs \<Rightarrow> session_state \<Rightarrow> session_state" where
  "preset_buttons inp st =
     (let st1 = (if red_button inp then st(''selected_color'' \<mapsto> ''#FF0000'') else st);
          st2 = (if blue_button inp then st1(''selected_color'' \<mapsto> ''#0000FF'') else st1)
      in (if white_button inp then st2(''selected_color'' \<mapsto> ''#FFFFFF'') else st2))"

definition update_color_from_picker :: "session_state \<Rightarrow> exn + session_state" where
  "update_color_from_picker st =
     (case st ''color_picker_value'' of
        None \<Rightarrow> Inl (OtherException ''AttributeError'' ''color_picker_value'')
      | Some v \<Rightarrow> Inr (st(''selected_color'' \<mapsto> v)))"

text \<open>
  A change of the colour picker, as Streamlit handles it: the widget's new value is
  stored under the widget's key, then the \<^verbatim>\<open>on_change\<close> callback runs, and only then the
  script is run again.
\<close>

definition picker_changed :: "string \<Rightarrow> session_state \<Rightarrow> exn + session_state" where
  "picker_changed v st = update_color_from_picker (st(''color_picker_value'' \<mapsto> v))"

definition page_controls :: "session_state \<Rightarrow> element list" where
  "page_controls st =
     [Title ''Image Background Remover & Cropper'',
      Markdown ([CHR 0x0A]
        @ ''Upload an image, remove background, set background color (using presets or picker),''
        @ [CHR 0x0A]
        @ ''and manually crop with a fixed aspect ratio. Crop selection persists when color changes.''
        @ [CHR 0x0A]),
      SidebarHeader ''Controls'',
      FileUploader ''1. Upload Your Image'' [''png'', ''jpg'', ''jpeg'', ''webp''],
      SidebarSubheader ''2. Background Color'',
      Button ''Red'', Button ''Blue'', Button ''White'',
      ColorPicker ''Pick Custom Color'' (st ''selected_color'') ''color_picker_value'',
      SidebarSubheader ''3. Crop Settings'',
      Selectbox ''Select Crop Aspect Ratio'' [''No Crop'', ''1:1 (Square)'', ''35:45 (Passport)'']]"

subsection \<open>Crop setting (lines 58-62)\<close>

definition aspect_ratio_of :: "string \<Rightarrow> (nat \<times> nat) option" where
  "aspect_ratio_of opt =
     (if opt = ''1:1 (Square)'' then Some (1, 1)
      else if opt = ''35:45 (Passport)'' then Some (35, 45)
      else None)"

subsection \<open>Processing steps (lines 68-94)\<close>

definition remove_background :: "env \<Rightarrow> bytes \<Rightarrow> image step" where
  "remove_background env input_bytes =
     (case image_open env input_bytes of
        Inl e \<Rightarrow> (Inl e, [])
      | Inr input_image \<Rightarrow> (remove env input_image, [Spinner ''Removing background...'']))"

definition hex_to_rgb :: "string \<Rightarrow> exn + int \<times> int \<times> int" where
  "hex_to_rgb selected =
     (let bg_color_hex = lstrip (CHR ''#'') selected in
      case py_int16 (slice2 bg_color_hex 0) of
        Inl e \<Rightarrow> Inl e
      | Inr r \<Rightarrow>
          (case py_int16 (slice2 bg_color_hex 2) of
             Inl e \<Rightarrow> Inl e
           | Inr g \<Rightarrow>
               (case py_int16 (slice2 bg_color_hex 4) of
                  Inl e \<Rightarrow> Inl e
                | Inr b \<Rightarrow> Inr (r, g, b))))"

text \<open>
  Lines 85-92, the compositing step: a new \<^verbatim>\<open>RGB\<close> image of the foreground's size, the
  foreground pasted at (0, 0) with itself as mask (line 87), and on \<^verbatim>\<open>ValueError\<close> a
  warning and the paste without mask at the same place (line 92).
\<close>

definition masked_paste :: "env \<Rightarrow> image \<Rightarrow> int \<times> int \<times> int \<Rightarrow> exn + image" where
  "masked_paste env output_image_nobg bg_color_rgb =
     paste env (Image_new_RGB (size_im output_image_nobg) bg_color_rgb) output_image_nobg (0, 0)
       (Some output_image_nobg)"

definition direct_paste :: "env \<Rightarrow> image \<Rightarrow> int \<times> int \<times> int \<Rightarrow> exn + image" where
  "direct_paste env output_image_nobg bg_color_rgb =
     paste env (Image_new_RGB (size_im output_image_nobg) bg_color_rgb) output_image_nobg (0, 0)
       None"

definition paste_warning :: "string \<Rightarrow> element" where
  "paste_warning msg =
     Warning (''Pasting with alpha mask failed ('' @ msg @ ''), attempting direct paste.'')"

definition applyBackground :: "env \<Rightarrow> image \<Rightarrow> int \<times> int \<times> int \<Rightarrow> image step" where
  "applyBackground env output_image_nobg bg_color_rgb =
     (case masked_paste env output_image_nobg bg_color_rgb of
        Inr pasted \<Rightarrow> (Inr pasted, [])
      | Inl (ValueError msg) \<Rightarrow>
          (direct_paste env output_image_nobg bg_color_rgb, [paste_warning msg])
      | Inl (OtherException cls msg) \<Rightarrow> (Inl (OtherException cls msg), []))"

definition add_background :: "env \<Rightarrow> session_state \<Rightarrow> image \<Rightarrow> image step" where
  "add_background env st output_image_nobg =
     (case st ''selected_color'' of
        None \<Rightarrow> (Inl (OtherException ''AttributeError'' ''selected_color''), [])
      | Some selected \<Rightarrow>
          (case hex_to_rgb selected of
             Inl e \<Rightarrow> (Inl e, [])
           | Inr bg_color_rgb \<Rightarrow> applyBackground env output_image_nobg bg_color_rgb))"

definition processing_steps :: "env \<Rightarrow> session_state \<Rightarrow> bytes \<Rightarrow> image step" where
  "processing_steps env st input_bytes =
     then_do (remove_background env input_bytes) (add_background env st)"

subsection \<open>Crop or preview (lines 97-121)\<close>

definition cropper_key :: "string \<Rightarrow> string \<Rightarrow> string" where
  "cropper_key file_name crop_opt = ''cropper_'' @ file_name @ ''_'' @ crop_opt"

definition crop_or_preview :: "env \<Rightarrow> string \<Rightarrow> string \<Rightarrow> image \<Rightarrow> image option step" where
  "crop_or_preview env file_name crop_opt img_ready_for_crop =
     (if crop_opt \<noteq> ''No Crop'' then
        (st_cropper env img_ready_for_crop (aspect_ratio_of crop_opt)
           (cropper_key file_name crop_opt),
         [Header ''Crop Area (Adjust Box)'',
          Info ''Adjust the blue box. The result appears on the right.'',
          Cropper img_ready_for_crop (aspect_ratio_of crop_opt) (cropper_key file_name crop_opt)])
      else
        (Inr (Some img_ready_for_crop),
         [Header ''Image Preview (No Crop)'',
          Info ''Cropping is disabled. Result is shown on the right.'',
          ImageShown img_ready_for_crop None]))"

subsection \<open>Result and download (lines 124-156)\<close>

definition finalizeForExport :: "env \<Rightarrow> image \<Rightarrow> exn + bytes" where
  "finalizeForExport env final_image =
     (if mode final_image = ''RGBA'' then save_png env final_image
      else if mode final_image \<noteq> ''RGB'' then
        (case convert env final_image ''RGB'' of
           Inl e \<Rightarrow> Inl e
         | Inr converted \<Rightarrow> save_png env converted)
      else save_png env final_image)"

definition download_filename :: "string \<Rightarrow> string" where
  "download_filename file_name =
     (case rsplit1 (CHR ''.'') file_name of
        original_filename # rest \<Rightarrow> original_filename
      | [] \<Rightarrow> ''image'') @ ''_processed.png''"

definition result_column :: "env \<Rightarrow> string \<Rightarrow> image option \<Rightarrow> unit step" where
  "result_column env file_name final_image =
     (case final_image of
        None \<Rightarrow>
          (Inr (), [Header ''Final Result'', Warning ''Waiting for image processing or cropping...''])
      | Some img \<Rightarrow>
          (case finalizeForExport env img of
             Inl e \<Rightarrow> (Inl e, [Header ''Final Result'', ImageShown img (Some ''Processed Output'')])
           | Inr byte_im \<Rightarrow>
               (Inr (),
                [Header ''Final Result'', ImageShown img (Some ''Processed Output''),
                 DownloadButton ''4. Download Final Image'' byte_im (download_filename file_name)
                   ''image/png''])))"

subsection \<open>Main area (lines 65-167)\<close>

definition display_columns :: "env \<Rightarrow> string \<Rightarrow> string \<Rightarrow> image \<Rightarrow> unit step" where
  "display_columns env file_name crop_opt img_ready_for_crop =
     then_do (crop_or_preview env file_name crop_opt img_ready_for_crop)
       (result_column env file_name)"

definition try_body :: "env \<Rightarrow> session_state \<Rightarrow> string \<Rightarrow> bytes \<Rightarrow> string \<Rightarrow> unit step" where
  "try_body env st file_name input_bytes crop_opt =
     then_do (processing_steps env st input_bytes) (display_columns env file_name crop_opt)"

definition error_report :: "exn \<Rightarrow> element list" where
  "error_report e =
     [Error ''An error occurred during processing:'',
      ErrorExn e,
      ExceptionTrace e,
      Error (''Please ensure the uploaded file is a valid image. ''
        @ ''Some images might fail background removal or processing.'')]"

definition main_area :: "env \<Rightarrow> session_state \<Rightarrow> inputs \<Rightarrow> element list" where
  "main_area env st inp =
     (case uploaded_file inp of
        None \<Rightarrow> [Info ''Upload an image using the sidebar controls to get started.'']
      | Some (file_name, input_bytes) \<Rightarrow>
          (case try_body env st file_name input_bytes (crop_aspect_ratio_option inp) of
             (Inr u, ui) \<Rightarrow> ui
           | (Inl e, ui) \<Rightarrow> ui @ error_report e))"

text \<open>One run of the script: the session state it leaves and the calls it makes.\<close>

definition run_script :: "env \<Rightarrow> session_state \<Rightarrow> inputs \<Rightarrow> session_state \<times> element list" where
  "run_script env st inp =
     (let st' = preset_buttons inp (init_session st)
      in (st', page_controls st' @ main_area env st' inp))"

section \<open>Properties stated by the specification\<close>

text \<open>
  A colour string as the presets and the colour picker write it: \<^verbatim>\<open>#\<close> and six
  hexadecimal digits.
\<close>

definition valid_color :: "string \<Rightarrow> bool" where
  "valid_color s =
     (case s of
        [] \<Rightarrow> False
      | c # h \<Rightarrow> c = CHR ''#'' \<and> length h = 6 \<and> list_all (\<lambda>d. digit16 d \<noteq> None) h)"

definition color_inv :: "session_state \<Rightarrow> bool" where
  "color_inv st = (case st ''selected_color'' of None \<Rightarrow> False | Some c \<Rightarrow> valid_color c)"

text \<open>
  Proportional blending of one band: \<open>v\<close> is the integer nearest to the mean of the
  background value \<open>c\<close> and the foreground value \<open>f\<close> weighted by the alpha value \<open>a\<close>,
  that is nearest to \<open>(c * (255 - a) + f * a) / 255\<close>.
\<close>

definition proportional :: "band \<Rightarrow> band \<Rightarrow> band \<Rightarrow> band \<Rightarrow> bool" where
  "proportional a c f v =
     (\<bar>255 * int (unat v) - (int (unat c) * (255 - int (unat a)) + int (unat f) * int (unat a))\<bar>
        \<le> 127)"

text \<open>
  The base name in the specification's words: the file name with its final
  dot-extension removed, and unchanged when it has no dot.
\<close>

fun without_final_extension :: "string \<Rightarrow> string" where
  "without_final_extension [] = []"
| "without_final_extension (c # cs) =
     (if CHR ''.'' \<in> set cs then c # without_final_extension cs
      else if c = CHR ''.'' then []
      else c # cs)"


text \<open>
  The error state of a run: after the page controls and the calls \<open>pre\<close> made before
  the exception, the run shows the exception in full (its message and its traceback)
  between the two fixed error lines, nothing follows, and the run has no download
  button.
\<close>

definition error_state :: "env \<Rightarrow> session_state \<Rightarrow> inputs \<Rightarrow> element list \<Rightarrow> exn \<Rightarrow> bool" where
  "error_state env st inp pre e =
     (snd (run_script env st inp) =
        page_controls (fst (run_script env st inp)) @ pre
        @ [Error ''An error occurred during processing:'', ErrorExn e, ExceptionTrace e,
           Error (''Please ensure the uploaded file is a valid image. ''
             @ ''Some images might fail background removal or processing.'')]
      \<and> \<not> list_ex is_download (snd (run_script env st inp)))"

fun is_error_call :: "element \<Rightarrow> bool" where
  "is_error_call (Error s) = True"
| "is_error_call (ErrorExn e) = True"
| "is_error_call (ExceptionTrace e) = True"
| "is_error_call _ = False"

section \<open>Sample environments\<close>

text \<open>
  Small instances of the library calls, on which the theorems below are exercised: a
  decoder that rejects the empty upload and otherwise yields a 2 x 1 \<^verbatim>\<open>RGB\<close> image, a
  background removal that returns an \<^verbatim>\<open>RGBA\<close> image whose alpha is the red band, the
  conversion to \<^verbatim>\<open>RGB\<close> that drops the fourth band (and repeats the single band of an
  \<^verbatim>\<open>L\<close> image), a cropper that selects the whole
  image, and an encoder that lists the stored bytes. Pasting is \<open>pil_paste\<close>.
\<close>

definition sample_open :: "bytes \<Rightarrow> exn + image" where
  "sample_open bs =
     (case bs of
        [] \<Rightarrow> Inl (OtherException ''UnidentifiedImageError'' ''cannot identify image file'')
      | b # r \<Rightarrow>
          Inr \<lparr>mode = ''RGB'', size_im = (2, 1), pixels = [(b, b, b, 255), (10, 20, 30, 255)]\<rparr>)"

definition sample_remove :: "image \<Rightarrow> exn + image" where
  "sample_remove im =
     Inr (im\<lparr>mode := ''RGBA'', pixels := map (\<lambda>(r, g, b, x). (r, g, b, r)) (pixels im)\<rparr>)"

definition sample_convert :: "image \<Rightarrow> string \<Rightarrow> exn + image" where
  "sample_convert im m =
     (if m = ''RGB''
      then Inr (im\<lparr>mode := ''RGB'',
                   pixels := map (\<lambda>(r, g, b, a). if mode im = ''L'' then (r, r, r, 255)
                                                  else (r, g, b, 255)) (pixels im)\<rparr>)
      else Inl (ValueError ''conversion not supported''))"

definition sample_save :: "image \<Rightarrow> exn + bytes" where
  "sample_save im = Inr (concat (map (\<lambda>(r, g, b, a). [r, g, b, a]) (pixels im)))"

definition sample_env :: env where
  "sample_env =
     \<lparr>image_open = sample_open, remove = sample_remove, paste = pil_paste sample_convert,
      st_cropper = (\<lambda>im ar key. Inr (Some im)), convert = sample_convert,
      save_png = sample_save\<rparr>"

text \<open>A background removal that hands back an image without alpha band.\<close>

definition opaque_env :: env where
  "opaque_env = sample_env\<lparr>remove := Inr\<rparr>"

text \<open>A paste that runs out of memory when it is given a mask.\<close>

definition failing_env :: env where
  "failing_env =
     sample_env\<lparr>paste := (\<lambda>self im box msk.
       case msk of
         None \<Rightarrow> pil_paste sample_convert self im box None
       | Some m \<Rightarrow> Inl (OtherException ''MemoryError'' []))\<rparr>"

definition sample_inputs :: "string \<Rightarrow> bytes \<Rightarrow> string \<Rightarrow> inputs" where
  "sample_inputs file_name bs crop_opt =
     \<lparr>uploaded_file = Some (file_name, bs), red_button = False, blue_button = False,
      white_button = False, crop_aspect_ratio_option = crop_opt\<rparr>"

text \<open>Runs without upload: a click on one preset button, and a run without click.\<close>

definition click_red :: inputs where
  "click_red = \<lparr>uploaded_file = None, red_button = True, blue_button = False,
                 white_button = False, crop_aspect_ratio_option = ''No Crop''\<rparr>"

definition click_blue :: inputs where
  "click_blue = \<lparr>uploaded_file = None, red_button = False, blue_button = True,
                  white_button = False, crop_aspect_ratio_option = ''No Crop''\<rparr>"

definition click_white :: inputs where
  "click_white = \<lparr>uploaded_file = None, red_button = False, blue_button = False,
                   white_button = True, crop_aspect_ratio_option = ''No Crop''\<rparr>"

definition no_click :: inputs where
  "no_click = \<lparr>uploaded_file = None, red_button = False, blue_button = False,
                white_button = False, crop_aspect_ratio_option = ''No Crop''\<rparr>"

definition fresh_state :: session_state where
  "fresh_state = Map.empty"

definition red_state :: session_state where
  "red_state = [''selected_color'' \<mapsto> ''#FF0000'']"

definition blue_state :: session_state where
  "blue_state = [''selected_color'' \<mapsto> ''#0000FF'', ''color_picker_value'' \<mapsto> ''#0000FF'']"

definition garbled_state :: session_state where
  "garbled_state = [''selected_color'' \<mapsto> ''#GG0000'']"

definition sample_fg :: image where
  "sample_fg = \<lparr>mode = ''RGBA'', size_im = (3, 1),
                pixels = [(1, 2, 3, 255), (4, 5, 6, 0), (200, 100, 0, 128)]\<rparr>"

text \<open>What the sample decoder and the sample background removal give for the upload [128].\<close>

definition sample_decoded :: image where
  "sample_decoded = \<lparr>mode = ''RGB'', size_im = (2, 1),
                     pixels = [(128, 128, 128, 255), (10, 20, 30, 255)]\<rparr>"

definition sample_cutout :: image where
  "sample_cutout = \<lparr>mode = ''RGBA'', size_im = (2, 1),
                    pixels = [(128, 128, 128, 128), (10, 20, 30, 10)]\<rparr>"

text \<open>The sample cutout over red and over blue.\<close>

definition sample_on_red :: image where
  "sample_on_red = \<lparr>mode = ''RGB'', size_im = (2, 1),
                    pixels = [(191, 64, 64, 191), (245, 1, 1, 245)]\<rparr>"

definition sample_on_blue :: image where
  "sample_on_blue = \<lparr>mode = ''RGB'', size_im = (2, 1),
                     pixels = [(64, 64, 191, 191), (0, 1, 246, 245)]\<rparr>"



text \<open>
  A background removal that hands back the mask only, an \<^verbatim>\<open>L\<close> image; with it a
  conversion that runs out of memory, and a conversion that supports no mode.
\<close>

definition mask_only :: "image \<Rightarrow> exn + image" where
  "mask_only im = Inr (im\<lparr>mode := ''L'', pixels := map (\<lambda>(r, g, b, x). (r, 0, 0, 0)) (pixels im)\<rparr>)"

definition sample_mask :: image where
  "sample_mask = \<lparr>mode = ''L'', size_im = (2, 1), pixels = [(128, 0, 0, 0), (10, 0, 0, 0)]\<rparr>"

definition no_memory :: "image \<Rightarrow> string \<Rightarrow> exn + image" where
  "no_memory im m = Inl (OtherException ''MemoryError'' [])"

definition exhausted_env :: env where
  "exhausted_env =
     sample_env\<lparr>remove := mask_only, paste := pil_paste no_memory, convert := no_memory\<rparr>"

definition no_conversion :: "image \<Rightarrow> string \<Rightarrow> exn + image" where
  "no_conversion im m = Inl (ValueError ''conversion not supported'')"

definition unconvertible_env :: env where
  "unconvertible_env =
     sample_env\<lparr>remove := mask_only, paste := pil_paste no_conversion,
                convert := no_conversion\<rparr>"

text \<open>A background removal that fails.\<close>

definition model_failure :: exn where
  "model_failure = OtherException ''RuntimeError'' ''model failed''"

definition removal_fails_env :: env where
  "removal_fails_env = sample_env\<lparr>remove := (\<lambda>im. Inl model_failure)\<rparr>"





section \<open>Blending arithmetic\<close>

lemma div255_round:
  assumes "n \<le> 65025" shows "div255 n = (n + 127) div 255"
proof -
  define t where "t = n + 128"
  define q where "q = t div 256"
  define r where "r = t mod 256"
  have t: "t = 256 * q + r" and r: "r < 256" by (simp_all add: q_def r_def)
  have q: "q \<le> 254" using assms by (simp add: q_def t_def)
  have t128: "128 \<le> t" by (simp add: t_def)
  have qr: "1 \<le> q + r" using t t128 by arith
  have "(q + t) div 256 = q + (q + r) div 256" using t by simp
  moreover have "(n + 127) div 255 = q + (q + r - 1) div 255"
  proof -
    have "n + 127 = 255 * q + (q + r - 1)" using t qr by (simp add: t_def)
    then show ?thesis by simp
  qed
  moreover have "(q + r) div 256 = (q + r - 1) div 255" using q r qr by arith
  moreover have "div255 n = (q + t) div 256" by (simp add: div255_def Let_def q_def t_def)
  ultimately show ?thesis by simp
qed

lemma div255_bound: "n \<le> 65025 \<Longrightarrow> div255 n \<le> 255"
  by (simp add: div255_round)

lemma blend_weight: "unat (c::band) * (255 - unat (a::band)) + unat (f::band) * unat a \<le> 65025"
proof -
  have c: "unat c \<le> 255" and f: "unat f \<le> 255" and a: "unat a \<le> 255"
    using unsigned_less [of c, where 'a = nat] unsigned_less [of f, where 'a = nat]
      unsigned_less [of a, where 'a = nat] by simp_all
  have "unat c * (255 - unat a) \<le> 255 * (255 - unat a)" using c by simp
  moreover have "unat f * unat a \<le> 255 * unat a" using f by simp
  ultimately have "unat c * (255 - unat a) + unat f * unat a \<le> 255 * (255 - unat a) + 255 * unat a"
    by linarith
  also have "\<dots> = 65025" using a by simp
  finally show ?thesis .
qed

lemma unat_blend: "unat (blend a c f) = (unat c * (255 - unat a) + unat f * unat a + 127) div 255"
proof -
  let ?W = "unat c * (255 - unat a) + unat f * unat a"
  have W: "?W \<le> 65025" by (rule blend_weight)
  have "div255 ?W \<le> 255" using W by (rule div255_bound)
  then have "unat (of_nat (div255 ?W) :: band) = div255 ?W"
    by (simp add: unat_of_nat)
  then show ?thesis by (simp add: blend_def div255_round [OF W])
qed

lemma blend_opaque: "blend 255 c f = f"
proof -
  have "unat (blend 255 c f) = unat f" by (simp add: unat_blend)
  then show ?thesis by (simp only: word_unat_eq_iff)
qed

lemma blend_transparent: "blend 0 c f = c"
proof -
  have "unat (blend 0 c f) = unat c" by (simp add: unat_blend)
  then show ?thesis by (simp only: word_unat_eq_iff)
qed

lemma blend_proportional: "proportional a c f (blend a c f)"
proof -
  let ?W = "unat c * (255 - unat a) + unat f * unat a"
  have a: "unat a \<le> 255" using unsigned_less [of a, where 'a = nat] by simp
  have W: "int ?W = int (unat c) * (255 - int (unat a)) + int (unat f) * int (unat a)"
    using a by (simp add: of_nat_diff)
  have "255 * ((?W + 127) div 255) \<le> ?W + 127" by simp
  moreover have "?W + 127 < 255 * ((?W + 127) div 255) + 255"
    using mod_less_divisor [of 255 "?W + 127"] div_mult_mod_eq [of "?W + 127" 255] by linarith
  ultimately have "\<bar>255 * int ((?W + 127) div 255) - int ?W\<bar> \<le> 127" by linarith
  then show ?thesis unfolding proportional_def unat_blend W [symmetric] .
qed


section \<open>Pasting with the foreground as mask\<close>

lemma row_major_index:
  assumes "i < w * h"
  shows "i mod w < w" and "i div w < h" and "nat (int (i div w) * int w + int (i mod w)) = i"
proof -
  have w: "0 < w" using assms by (cases w) simp_all
  show "i mod w < w" using w by simp
  show "i div w < h" using assms by (simp add: less_mult_imp_div_less mult.commute)
  have "int (i div w) * int w + int (i mod w) = int (i div w * w + i mod w)"
    by (simp only: of_nat_add of_nat_mult)
  then show "nat (int (i div w) * int w + int (i mod w)) = i" by simp
qed

lemma paste_rule_RGBA:
  "paste_rule (Some ''RGBA'') = Inr (\<lambda>out inp m. map_pixel2 (blend (alpha_of m)) out inp)"
  by (simp add: paste_rule_def)

lemma imaging_paste_RGBA:
  assumes sz: "size_im out = size_im fg" and m: "mode fg = ''RGBA''"
    and ps: "pixelsize (mode out) = 4" and wf: "wf_image out"
  shows "imaging_paste out fg (0, 0) (size_im fg) (Some fg) =
         Inr (out\<lparr>pixels := map (\<lambda>i. map_pixel2 (blend (alpha_of (pixels fg ! i)))
                                    (pixels out ! i) (pixels fg ! i))
                               [0..<length (pixels out)]\<rparr>)"
proof -
  obtain w h where wh: "size_im fg = (w, h)" by (cases "size_im fg")
  have len: "length (pixels out) = w * h" using wf sz wh by (simp add: wf_image_def)
  show ?thesis
  proof (cases "w = 0 \<or> h = 0")
    case True
    then have "pixels out = []" using len by auto
    then have "out\<lparr>pixels := map (\<lambda>i. map_pixel2 (blend (alpha_of (pixels fg ! i)))
                                    (pixels out ! i) (pixels fg ! i))
                               [0..<length (pixels out)]\<rparr> = out\<lparr>pixels := pixels out\<rparr>"
      by simp
    then show ?thesis
      using True ps by (auto simp add: imaging_paste_def wh sz m pixelsize_def)
  next
    case False
    then show ?thesis
      using len ps
      by (auto simp add: imaging_paste_def wh sz m pixelsize_def paste_rule_RGBA Let_def
          row_major_index)
  qed
qed

lemma pil_paste_RGBA:
  assumes "mode out = ''RGB''" "size_im out = size_im fg" "mode fg = ''RGBA''" "wf_image out"
  shows "pil_paste conv out fg (0, 0) (Some fg) =
         Inr (out\<lparr>pixels := map (\<lambda>i. map_pixel2 (blend (alpha_of (pixels fg ! i)))
                                    (pixels out ! i) (pixels fg ! i))
                               [0..<length (pixels out)]\<rparr>)"
proof -
  have "pixelsize (mode out) = 4" using assms(1) by (simp add: pixelsize_def)
  from imaging_paste_RGBA [OF assms(2) assms(3) this assms(4)] show ?thesis
    using assms(1,3) by (simp add: pil_paste_def)
qed

lemma clip8_in_range: "0 \<le> v \<Longrightarrow> v \<le> 255 \<Longrightarrow> clip8 v = word_of_int v"
  by (auto simp: clip8_def)

lemma blend_samples:
  "blend 128 255 128 = 191" "blend 128 0 128 = 64" "blend 10 255 10 = 245"
  "blend 10 0 20 = 1" "blend 10 0 30 = 1"
  by (simp_all add: word_unat_eq_iff unat_blend)

lemma map_index_zip:
  "length xs = length ys \<Longrightarrow> map (\<lambda>i. g (xs ! i) (ys ! i)) [0..<length xs] = map2 g xs ys"
  by (rule nth_equalityI) simp_all

lemma pil_paste_RGBA_zip:
  assumes "mode out = ''RGB''" "size_im out = size_im fg" "mode fg = ''RGBA''"
    "wf_image out" "wf_image fg"
  shows "pil_paste conv out fg (0, 0) (Some fg) =
         Inr (out\<lparr>pixels := map2 (\<lambda>p q. map_pixel2 (blend (alpha_of q)) p q)
                                 (pixels out) (pixels fg)\<rparr>)"
proof -
  have "length (pixels out) = length (pixels fg)" using assms(2,4,5) by (simp add: wf_image_def)
  from map_index_zip [OF this, of "\<lambda>p q. map_pixel2 (blend (alpha_of q)) p q"]
  show ?thesis by (simp add: pil_paste_RGBA [OF assms(1-4)])
qed

lemma sample_masked_paste:
  "masked_paste sample_env sample_cutout (255, 0, 0) =
     Inr \<lparr>mode = ''RGB'', size_im = (2, 1), pixels = [(191, 64, 64, 191), (245, 1, 1, 245)]\<rparr>"
  by (simp add: masked_paste_def sample_env_def sample_cutout_def pil_paste_RGBA_zip
      Image_new_RGB_def clip8_def wf_image_def blend_samples eval_nat_numeral)

section \<open>The compositing step\<close>

text \<open>
  C1. For a foreground in mode \<^verbatim>\<open>RGBA\<close> (the image with a transparency channel that the
  background removal hands over) and a colour triple with components in 0..255, pasted
  by Pillow's \<^verbatim>\<open>Image.paste\<close>, the compositing step returns without warning an \<^verbatim>\<open>RGB\<close>
  image of the foreground's size. Each of its pixels is the background colour and the
  foreground pixel blended in proportion to the foreground's alpha: where alpha is 255
  the pixel is the foreground's, where alpha is 0 it is the background colour.
\<close>

theorem applyBackground_composites:
  assumes env: "paste env = pil_paste (convert env)"
    and fg: "mode fg = ''RGBA''" "wf_image fg"
    and color: "0 \<le> r" "r \<le> 255" "0 \<le> g" "g \<le> 255" "0 \<le> b" "b \<le> 255"
  shows "\<exists>out. applyBackground env fg (r, g, b) = (Inr out, [])
          \<and> mode out = ''RGB'' \<and> size_im out = size_im fg \<and> wf_image out
          \<and> (\<forall>i < length (pixels fg).
               case pixels fg ! i of (fr, fg', fb, a) \<Rightarrow>
               case pixels out ! i of (pr, pg, pb, px) \<Rightarrow>
                 proportional a (word_of_int r) fr pr
                 \<and> proportional a (word_of_int g) fg' pg
                 \<and> proportional a (word_of_int b) fb pb
                 \<and> (a = 255 \<longrightarrow> (pr, pg, pb) = (fr, fg', fb))
                 \<and> (a = 0 \<longrightarrow> (pr, pg, pb) = (word_of_int r, word_of_int g, word_of_int b)))"
proof -
  let ?bg = "Image_new_RGB (size_im fg) (r, g, b)"
  let ?ink = "(word_of_int r, word_of_int g, word_of_int b, 255) :: pixel"
  have bg: "?bg = \<lparr>mode = ''RGB'', size_im = size_im fg,
                   pixels = replicate (fst (size_im fg) * snd (size_im fg)) ?ink\<rparr>"
    using color by (simp add: Image_new_RGB_def clip8_in_range)
  have len: "length (pixels fg) = fst (size_im fg) * snd (size_im fg)"
    using fg(2) by (simp add: wf_image_def)
  let ?out = "?bg\<lparr>pixels := map (\<lambda>i. map_pixel2 (blend (alpha_of (pixels fg ! i)))
                                    (pixels ?bg ! i) (pixels fg ! i))
                               [0..<length (pixels ?bg)]\<rparr>"
  have "pil_paste (convert env) ?bg fg (0, 0) (Some fg) = Inr ?out"
    by (rule pil_paste_RGBA) (simp_all add: bg fg wf_image_def)
  then have res: "applyBackground env fg (r, g, b) = (Inr ?out, [])"
    by (simp add: applyBackground_def masked_paste_def env)
  have px: "pixels ?out ! i = map_pixel2 (blend (alpha_of (pixels fg ! i))) ?ink (pixels fg ! i)"
    if "i < length (pixels fg)" for i
    using that by (simp add: bg len)
  have "case pixels fg ! i of (fr, fg', fb, a) \<Rightarrow>
               case pixels ?out ! i of (pr, pg, pb, px) \<Rightarrow>
                 proportional a (word_of_int r) fr pr
                 \<and> proportional a (word_of_int g) fg' pg
                 \<and> proportional a (word_of_int b) fb pb
                 \<and> (a = 255 \<longrightarrow> (pr, pg, pb) = (fr, fg', fb))
                 \<and> (a = 0 \<longrightarrow> (pr, pg, pb) = (word_of_int r, word_of_int g, word_of_int b))"
    if "i < length (pixels fg)" for i
  proof -
    obtain fr fg' fb a where p: "pixels fg ! i = (fr, fg', fb, a)" by (cases "pixels fg ! i")
    show ?thesis
      unfolding px [OF that] p
      by (simp add: blend_proportional blend_opaque blend_transparent)
  qed
  moreover have "mode ?out = ''RGB''" "size_im ?out = size_im fg" "wf_image ?out"
    by (simp_all add: bg wf_image_def)
  ultimately show ?thesis using res by blast
qed


theorem applyBackground_composites_witness:
  "paste sample_env = pil_paste (convert sample_env) \<and> mode sample_fg = ''RGBA''
   \<and> wf_image sample_fg
   \<and> (\<exists>out. applyBackground sample_env sample_fg (255, 0, 0) = (Inr out, [])
         \<and> mode out = ''RGB'' \<and> size_im out = (3, 1)
         \<and> rgb_of (pixels out ! 0) = (1, 2, 3) \<and> rgb_of (pixels out ! 1) = (255, 0, 0))"
proof -
  have e: "paste sample_env = pil_paste (convert sample_env)" by (simp add: sample_env_def)
  have m: "mode sample_fg = ''RGBA''" by (simp add: sample_fg_def)
  have w: "wf_image sample_fg" by (simp add: sample_fg_def wf_image_def)
  from applyBackground_composites [OF e m w, of 255 0 0]
  obtain out where o: "applyBackground sample_env sample_fg (255, 0, 0) = (Inr out, [])"
      "mode out = ''RGB''" "size_im out = size_im sample_fg"
    and px: "\<And>i. i < length (pixels sample_fg) \<Longrightarrow>
               (case pixels sample_fg ! i of (fr, fg', fb, a) \<Rightarrow>
                case pixels out ! i of (pr, pg, pb, px) \<Rightarrow>
                 proportional a (word_of_int 255) fr pr
                 \<and> proportional a (word_of_int 0) fg' pg
                 \<and> proportional a (word_of_int 0) fb pb
                 \<and> (a = 255 \<longrightarrow> (pr, pg, pb) = (fr, fg', fb))
                 \<and> (a = 0 \<longrightarrow> (pr, pg, pb) = (word_of_int 255, word_of_int 0, word_of_int 0)))"
    by auto
  from px [of 0] have p0: "rgb_of (pixels out ! 0) = (1, 2, 3)"
    by (cases "pixels out ! 0") (simp add: sample_fg_def)
  from px [of 1] have p1: "rgb_of (pixels out ! 1) = (255, 0, 0)"
    by (cases "pixels out ! 1") (simp add: sample_fg_def)
  from o p0 p1 have "\<exists>out. applyBackground sample_env sample_fg (255, 0, 0) = (Inr out, [])
         \<and> mode out = ''RGB'' \<and> size_im out = (3, 1)
         \<and> rgb_of (pixels out ! 0) = (1, 2, 3) \<and> rgb_of (pixels out ! 1) = (255, 0, 0)"
    by (simp add: sample_fg_def)
  with e m w show ?thesis by blast
qed

section \<open>Steps of a run\<close>

lemma then_do_Inl: "then_do (Inl e, ui) f = (Inl e, ui)"
  by (simp add: then_do_def)

lemma then_do_Inr: "then_do (Inr x, ui) f = (fst (f x), ui @ snd (f x))"
  by (simp add: then_do_def split: prod.splits)

lemma processing_steps_open_fails:
  "image_open env b = Inl e \<Longrightarrow> processing_steps env st b = (Inl e, [])"
  by (simp add: processing_steps_def remove_background_def then_do_Inl)

lemma processing_steps_remove_fails:
  "image_open env b = Inr im \<Longrightarrow> remove env im = Inl e \<Longrightarrow>
   processing_steps env st b = (Inl e, [Spinner ''Removing background...''])"
  by (simp add: processing_steps_def remove_background_def then_do_Inl)

lemma processing_steps_removed:
  "image_open env b = Inr im \<Longrightarrow> remove env im = Inr fg \<Longrightarrow>
   processing_steps env st b =
     (fst (add_background env st fg),
      Spinner ''Removing background...'' # snd (add_background env st fg))"
  by (simp add: processing_steps_def remove_background_def then_do_Inr)

lemma applyBackground_notices: "list_all is_notice (snd (applyBackground env fg rgb))"
  by (simp add: applyBackground_def paste_warning_def split: sum.splits exn.splits)

lemma add_background_notices: "list_all is_notice (snd (add_background env st fg))"
  by (simp add: add_background_def applyBackground_notices split: option.splits sum.splits)

lemma processing_steps_notices: "list_all is_notice (snd (processing_steps env st b))"
  by (auto simp add: processing_steps_def remove_background_def then_do_def add_background_notices
      split: sum.splits prod.splits)
     (metis add_background_notices snd_conv)+

lemma try_body_cases:
  "try_body env st name b opt =
     (case processing_steps env st b of
        (Inl e, pre) \<Rightarrow> (Inl e, pre)
      | (Inr ready, pre) \<Rightarrow>
          (fst (display_columns env name opt ready),
           pre @ snd (display_columns env name opt ready)))"
  by (simp add: try_body_def then_do_def split: prod.splits sum.splits)

lemma main_area_processed:
  "uploaded_file inp = Some (name, b) \<Longrightarrow> processing_steps env st b = (Inr ready, pre) \<Longrightarrow>
   main_area env st inp =
     pre @ (case display_columns env name (crop_aspect_ratio_option inp) ready of
              (Inr u, ui) \<Rightarrow> ui
            | (Inl e, ui) \<Rightarrow> ui @ error_report e)"
  by (simp add: main_area_def try_body_cases split: prod.splits sum.splits)

lemma display_columns_no_crop:
  "display_columns env name ''No Crop'' ready =
     (fst (result_column env name (Some ready)),
      [Header ''Image Preview (No Crop)'',
       Info ''Cropping is disabled. Result is shown on the right.'',
       ImageShown ready None] @ snd (result_column env name (Some ready)))"
  by (simp add: display_columns_def crop_or_preview_def then_do_Inr)

lemma notice_not_download: "list_all is_notice ui \<Longrightarrow> \<not> list_ex is_download ui"
  by (induction ui) (auto elim: is_notice.elims)

lemma error_report_no_download: "\<not> list_ex is_download (error_report e)"
  by (simp add: error_report_def)

lemma page_controls_no_download: "\<not> list_ex is_download (page_controls st)"
  by (simp add: page_controls_def)

lemma main_area_failed:
  "uploaded_file inp = Some (name, b) \<Longrightarrow> processing_steps env st b = (Inl e, pre) \<Longrightarrow>
   main_area env st inp = pre @ error_report e"
  by (simp add: main_area_def try_body_cases)


lemma run_script_state: "fst (run_script env st inp) = preset_buttons inp (init_session st)"
  by (simp add: run_script_def Let_def)

lemma run_script_calls:
  "snd (run_script env st inp) =
     page_controls (fst (run_script env st inp)) @ main_area env (fst (run_script env st inp)) inp"
  by (simp add: run_script_def Let_def)

section \<open>The fallback paste\<close>

text \<open>
  C10. The unmasked paste and its warning are taken exactly when the masked paste
  raises \<^verbatim>\<open>ValueError\<close>. When the masked paste raises an exception of another class
  there is no warning and no second paste: the exception leaves the compositing step,
  the generic handler reports it and the run has no download button. When the masked
  paste returns, its result is the composite.
\<close>

theorem fallback_exactly_on_ValueError:
  assumes up: "uploaded_file inp = Some (name, b)"
    and op: "image_open env b = Inr im" and rm: "remove env im = Inr fg"
    and sel: "st ''selected_color'' = Some c" and hex: "hex_to_rgb c = Inr rgb"
  shows "(\<forall>msg. masked_paste env fg rgb = Inl (ValueError msg) \<longrightarrow>
            applyBackground env fg rgb = (direct_paste env fg rgb, [paste_warning msg]))
         \<and> (\<forall>cls msg. masked_paste env fg rgb = Inl (OtherException cls msg) \<longrightarrow>
              applyBackground env fg rgb = (Inl (OtherException cls msg), [])
              \<and> main_area env st inp =
                  Spinner ''Removing background...'' # error_report (OtherException cls msg)
              \<and> \<not> list_ex is_download (main_area env st inp))
         \<and> (\<forall>out. masked_paste env fg rgb = Inr out \<longrightarrow>
              applyBackground env fg rgb = (Inr out, []))"
proof (intro conjI allI impI)
  fix msg assume "masked_paste env fg rgb = Inl (ValueError msg)"
  then show "applyBackground env fg rgb = (direct_paste env fg rgb, [paste_warning msg])"
    by (simp add: applyBackground_def)
next
  fix out assume "masked_paste env fg rgb = Inr out"
  then show "applyBackground env fg rgb = (Inr out, [])"
    by (simp add: applyBackground_def)
next
  fix cls msg assume m: "masked_paste env fg rgb = Inl (OtherException cls msg)"
  then show ab: "applyBackground env fg rgb = (Inl (OtherException cls msg), [])"
    by (simp add: applyBackground_def)
  have "add_background env st fg = (Inl (OtherException cls msg), [])"
    by (simp add: add_background_def sel hex ab)
  then have "processing_steps env st b =
      (Inl (OtherException cls msg), [Spinner ''Removing background...''])"
    by (simp add: processing_steps_removed [OF op rm])
  from main_area_failed [OF up this]
  show ma: "main_area env st inp =
      Spinner ''Removing background...'' # error_report (OtherException cls msg)"
    by simp
  show "\<not> list_ex is_download (main_area env st inp)"
    by (simp add: ma error_report_no_download)
qed


theorem fallback_exactly_on_ValueError_witness:
  "uploaded_file (sample_inputs ''photo.png'' [128] ''No Crop'') = Some (''photo.png'', [128])
   \<and> red_state ''selected_color'' = Some ''#FF0000'' \<and> hex_to_rgb ''#FF0000'' = Inr (255, 0, 0)
   \<and> image_open failing_env [128] = Inr sample_decoded
   \<and> remove failing_env sample_decoded = Inr sample_cutout
   \<and> masked_paste failing_env sample_cutout (255, 0, 0) = Inl (OtherException ''MemoryError'' [])
   \<and> main_area failing_env red_state (sample_inputs ''photo.png'' [128] ''No Crop'') =
       Spinner ''Removing background...'' # error_report (OtherException ''MemoryError'' [])
   \<and> image_open opaque_env [128] = Inr sample_decoded
   \<and> remove opaque_env sample_decoded = Inr sample_decoded
   \<and> masked_paste opaque_env sample_decoded (255, 0, 0) =
       Inl (ValueError ''bad transparency mask'')
   \<and> applyBackground opaque_env sample_decoded (255, 0, 0) =
       (Inr sample_decoded, [paste_warning ''bad transparency mask''])
   \<and> image_open sample_env [128] = Inr sample_decoded
   \<and> remove sample_env sample_decoded = Inr sample_cutout
   \<and> applyBackground sample_env sample_cutout (255, 0, 0) =
       (Inr \<lparr>mode = ''RGB'', size_im = (2, 1),
              pixels = [(191, 64, 64, 191), (245, 1, 1, 245)]\<rparr>, [])"
proof -
  have up: "uploaded_file (sample_inputs ''photo.png'' [128] ''No Crop'') = Some (''photo.png'', [128])"
    by (simp add: sample_inputs_def)
  have sel: "red_state ''selected_color'' = Some ''#FF0000''" by (simp add: red_state_def)
  have hex: "hex_to_rgb ''#FF0000'' = Inr (255, 0, 0)" by code_simp
  have op1: "image_open failing_env [128] = Inr sample_decoded" by code_simp
  have rm1: "remove failing_env sample_decoded = Inr sample_cutout" by code_simp
  have m1: "masked_paste failing_env sample_cutout (255, 0, 0) =
      Inl (OtherException ''MemoryError'' [])" by code_simp
  have op2: "image_open opaque_env [128] = Inr sample_decoded" by code_simp
  have rm2: "remove opaque_env sample_decoded = Inr sample_decoded" by code_simp
  have m2: "masked_paste opaque_env sample_decoded (255, 0, 0) =
      Inl (ValueError ''bad transparency mask'')" by code_simp
  have d2: "direct_paste opaque_env sample_decoded (255, 0, 0) = Inr sample_decoded" by code_simp
  have op3: "image_open sample_env [128] = Inr sample_decoded" by code_simp
  have rm3: "remove sample_env sample_decoded = Inr sample_cutout" by code_simp
  note m3 = sample_masked_paste
  have a: "main_area failing_env red_state (sample_inputs ''photo.png'' [128] ''No Crop'') =
       Spinner ''Removing background...'' # error_report (OtherException ''MemoryError'' [])"
    using fallback_exactly_on_ValueError [where st = red_state, OF up op1 rm1 sel hex,
        THEN conjunct2, THEN conjunct1, rule_format, OF m1]
    by (elim conjE) assumption
  have b: "applyBackground opaque_env sample_decoded (255, 0, 0) =
       (Inr sample_decoded, [paste_warning ''bad transparency mask''])"
    using fallback_exactly_on_ValueError [where st = red_state, OF up op2 rm2 sel hex,
        THEN conjunct1, rule_format, OF m2]
    by (simp only: d2)
  have c: "applyBackground sample_env sample_cutout (255, 0, 0) =
       (Inr \<lparr>mode = ''RGB'', size_im = (2, 1),
              pixels = [(191, 64, 64, 191), (245, 1, 1, 245)]\<rparr>, [])"
    by (rule fallback_exactly_on_ValueError [where st = red_state, OF up op3 rm3 sel hex,
        THEN conjunct2, THEN conjunct2, rule_format, OF m3])
  show ?thesis by (intro conjI up sel hex op1 rm1 m1 a op2 rm2 m2 b op3 rm3 c)
qed

section \<open>The crop widget\<close>

lemma blend_samples_blue:
  "blend 10 0 10 = 0" "blend 10 255 30 = 246"
  by (simp_all add: word_unat_eq_iff unat_blend)

lemma sample_masked_paste_blue:
  "masked_paste sample_env sample_cutout (0, 0, 255) = Inr sample_on_blue"
  by (simp add: masked_paste_def sample_env_def sample_cutout_def sample_on_blue_def
      pil_paste_RGBA_zip Image_new_RGB_def clip8_def wf_image_def blend_samples
      blend_samples_blue eval_nat_numeral)

lemma sample_processing_red:
  "processing_steps sample_env red_state [128] =
     (Inr sample_on_red, [Spinner ''Removing background...''])"
proof -
  have op: "image_open sample_env [128] = Inr sample_decoded" by code_simp
  have rm: "remove sample_env sample_decoded = Inr sample_cutout" by code_simp
  have hex: "hex_to_rgb ''#FF0000'' = Inr (255, 0, 0)" by code_simp
  show ?thesis
    by (simp add: processing_steps_removed [OF op rm] add_background_def red_state_def hex
        applyBackground_def sample_masked_paste sample_on_red_def)
qed

lemma sample_processing_blue:
  "processing_steps sample_env blue_state [128] =
     (Inr sample_on_blue, [Spinner ''Removing background...''])"
proof -
  have op: "image_open sample_env [128] = Inr sample_decoded" by code_simp
  have rm: "remove sample_env sample_decoded = Inr sample_cutout" by code_simp
  have hex: "hex_to_rgb ''#0000FF'' = Inr (0, 0, 255)" by code_simp
  show ?thesis
    by (simp add: processing_steps_removed [OF op rm] add_background_def blue_state_def hex
        applyBackground_def sample_masked_paste_blue)
qed

lemma main_area_columns:
  "uploaded_file inp = Some (name, b) \<Longrightarrow> processing_steps env st b = (Inr ready, pre) \<Longrightarrow>
   main_area env st inp =
     pre @ snd (display_columns env name (crop_aspect_ratio_option inp) ready)
     @ (case fst (display_columns env name (crop_aspect_ratio_option inp) ready) of
          Inl e \<Rightarrow> error_report e
        | Inr u \<Rightarrow> [])"
  by (simp add: main_area_processed split: prod.splits sum.splits)

lemma notice_not_cropper: "list_all is_notice ui \<Longrightarrow> Cropper i a k \<notin> set ui"
  by (induction ui) auto

lemma display_columns_cropper:
  "Cropper i a k \<in> set (snd (display_columns env name opt ready)) \<Longrightarrow> k = cropper_key name opt"
  by (auto simp add: display_columns_def then_do_def crop_or_preview_def result_column_def
      split: if_splits sum.splits option.splits prod.splits)

lemma main_area_cropper:
  assumes "Cropper i a k \<in> set (main_area env st inp)"
  shows "\<exists>name b. uploaded_file inp = Some (name, b)
           \<and> k = cropper_key name (crop_aspect_ratio_option inp)"
proof (cases "uploaded_file inp")
  case None
  with assms show ?thesis by (simp add: main_area_def)
next
  case (Some u)
  obtain name b where u: "u = (name, b)" by (cases u)
  obtain r pre where ps: "processing_steps env st b = (r, pre)"
    by (cases "processing_steps env st b")
  have pre: "Cropper i a k \<notin> set pre"
    using processing_steps_notices [of env st b] by (simp add: ps notice_not_cropper)
  show ?thesis
  proof (cases r)
    case (Inl e)
    with assms Some u ps pre show ?thesis
      by (simp add: main_area_failed error_report_def)
  next
    case (Inr ready)
    with assms Some u ps pre
    have "Cropper i a k \<in> set (snd (display_columns env name (crop_aspect_ratio_option inp) ready))"
      by (auto simp add: main_area_columns error_report_def split: sum.splits)
    from display_columns_cropper [OF this] Some u show ?thesis by simp
  qed
qed

lemma run_script_cropper:
  assumes "Cropper i a k \<in> set (snd (run_script env st inp))"
  shows "\<exists>name b. uploaded_file inp = Some (name, b)
           \<and> k = cropper_key name (crop_aspect_ratio_option inp)"
proof -
  from assms have "Cropper i a k \<in> set (main_area env (fst (run_script env st inp)) inp)"
    by (simp add: run_script_calls page_controls_def)
  then show ?thesis by (rule main_area_cropper)
qed

text \<open>
  C4. The key passed to the crop widget is \<^verbatim>\<open>cropper_<file name>_<crop option>\<close>. Two runs
  on uploads of the same name with the same crop option pass the same key, whatever
  the session states (and with them the selected colours), the button clicks and the
  library results of the two runs are.
\<close>

theorem cropper_key_ignores_color:
  assumes "uploaded_file inp1 = Some (name, b1)" and "uploaded_file inp2 = Some (name, b2)"
    and "crop_aspect_ratio_option inp1 = crop_aspect_ratio_option inp2"
    and "Cropper i1 a1 k1 \<in> set (snd (run_script env1 st1 inp1))"
    and "Cropper i2 a2 k2 \<in> set (snd (run_script env2 st2 inp2))"
  shows "k1 = k2 \<and> k1 = ''cropper_'' @ name @ ''_'' @ crop_aspect_ratio_option inp1"
  using run_script_cropper [OF assms(4)] run_script_cropper [OF assms(5)] assms(1-3)
  by (auto simp add: cropper_key_def)


lemma display_columns_crop:
  "opt \<noteq> ''No Crop'' \<Longrightarrow>
   Cropper ready (aspect_ratio_of opt) (cropper_key name opt)
     \<in> set (snd (display_columns env name opt ready))"
  by (simp add: display_columns_def crop_or_preview_def then_do_def split: sum.splits prod.splits)

lemma run_script_no_click:
  "st ''selected_color'' \<noteq> None \<Longrightarrow> \<not> red_button inp \<Longrightarrow> \<not> blue_button inp \<Longrightarrow>
   \<not> white_button inp \<Longrightarrow> fst (run_script env st inp) = st"
  by (auto simp add: run_script_state preset_buttons_def init_session_def)

lemma run_script_crops:
  assumes "uploaded_file inp = Some (name, b)"
    and "processing_steps env (fst (run_script env st inp)) b = (Inr ready, pre)"
    and "crop_aspect_ratio_option inp \<noteq> ''No Crop''"
  shows "Cropper ready (aspect_ratio_of (crop_aspect_ratio_option inp))
           (cropper_key name (crop_aspect_ratio_option inp))
         \<in> set (snd (run_script env st inp))"
  using display_columns_crop [OF assms(3), of ready name env]
  by (simp add: run_script_calls main_area_columns [OF assms(1,2)])

theorem cropper_key_ignores_color_witness:
  "uploaded_file (sample_inputs ''photo.png'' [128] ''1:1 (Square)'') = Some (''photo.png'', [128])
   \<and> red_state ''selected_color'' = Some ''#FF0000''
   \<and> blue_state ''selected_color'' = Some ''#0000FF''
   \<and> Cropper sample_on_red (Some (1, 1)) (cropper_key ''photo.png'' ''1:1 (Square)'')
       \<in> set (snd (run_script sample_env red_state
                     (sample_inputs ''photo.png'' [128] ''1:1 (Square)'')))
   \<and> Cropper sample_on_blue (Some (1, 1)) (cropper_key ''photo.png'' ''1:1 (Square)'')
       \<in> set (snd (run_script sample_env blue_state
                     (sample_inputs ''photo.png'' [128] ''1:1 (Square)'')))
   \<and> cropper_key ''photo.png'' ''1:1 (Square)'' = ''cropper_photo.png_1:1 (Square)''"
proof -
  let ?inp = "sample_inputs ''photo.png'' [128] ''1:1 (Square)''"
  have up: "uploaded_file ?inp = Some (''photo.png'', [128])" by (simp add: sample_inputs_def)
  have opt: "crop_aspect_ratio_option ?inp = ''1:1 (Square)''" by (simp add: sample_inputs_def)
  have red: "red_state ''selected_color'' = Some ''#FF0000''" by (simp add: red_state_def)
  have blue: "blue_state ''selected_color'' = Some ''#0000FF''" by (simp add: blue_state_def)
  have sr: "fst (run_script sample_env red_state ?inp) = red_state"
    by (rule run_script_no_click) (simp_all add: red sample_inputs_def)
  have sb: "fst (run_script sample_env blue_state ?inp) = blue_state"
    by (rule run_script_no_click) (simp_all add: blue sample_inputs_def)
  have ar: "aspect_ratio_of ''1:1 (Square)'' = Some (1, 1)" by (simp add: aspect_ratio_of_def)
  have c1: "Cropper sample_on_red (Some (1, 1)) (cropper_key ''photo.png'' ''1:1 (Square)'')
       \<in> set (snd (run_script sample_env red_state ?inp))"
    using run_script_crops [of ?inp "''photo.png''" "[128]" sample_env red_state sample_on_red]
    by (simp add: up sr sample_processing_red opt ar)
  have c2: "Cropper sample_on_blue (Some (1, 1)) (cropper_key ''photo.png'' ''1:1 (Square)'')
       \<in> set (snd (run_script sample_env blue_state ?inp))"
    using run_script_crops [of ?inp "''photo.png''" "[128]" sample_env blue_state sample_on_blue]
    by (simp add: up sb sample_processing_blue opt ar)
  from cropper_key_ignores_color [OF up up refl c1 c2]
  have "cropper_key ''photo.png'' ''1:1 (Square)'' = ''cropper_photo.png_1:1 (Square)''"
    by (simp add: opt)
  with up red blue c1 c2 show ?thesis by (intro conjI)
qed

section \<open>The download\<close>

lemma without_final_extension_no_dot:
  "CHR ''.'' \<notin> set s \<Longrightarrow> without_final_extension s = s"
  by (cases s) auto

lemma without_final_extension_last_dot:
  "CHR ''.'' \<notin> set suf \<Longrightarrow> without_final_extension (pre @ CHR ''.'' # suf) = pre"
  by (induction pre) simp_all

lemma rsplit1_last_sep:
  assumes "sep \<notin> set suf"
  shows "rsplit1 sep (pre @ sep # suf) = [pre, suf]"
proof -
  have all: "\<And>x. x \<in> set (rev suf) \<Longrightarrow> x \<noteq> sep" using assms by auto
  have "dropWhile (\<lambda>c. c \<noteq> sep) (rev suf @ sep # rev pre)
          = dropWhile (\<lambda>c. c \<noteq> sep) (sep # rev pre)"
    by (rule dropWhile_append2) (rule all)
  then have d: "dropWhile (\<lambda>c. c \<noteq> sep) (rev suf @ sep # rev pre) = sep # rev pre"
    by simp
  have "takeWhile (\<lambda>c. c \<noteq> sep) (rev suf @ sep # rev pre) = takeWhile (\<lambda>c. c \<noteq> sep) (rev suf)"
    by (simp add: takeWhile_tail)
  also have "\<dots> = rev suf" using all by (simp add: takeWhile_eq_all_conv)
  finally have t: "takeWhile (\<lambda>c. c \<noteq> sep) (rev suf @ sep # rev pre) = rev suf" .
  show ?thesis by (simp add: rsplit1_def d t)
qed

lemma download_filename_spec:
  "download_filename name = without_final_extension name @ ''_processed.png''"
proof (cases "CHR ''.'' \<in> set name")
  case True
  then obtain pre suf where "name = pre @ CHR ''.'' # suf" "CHR ''.'' \<notin> set suf"
    by (auto dest: split_list_last)
  then show ?thesis
    by (simp add: download_filename_def rsplit1_last_sep without_final_extension_last_dot)
next
  case False
  then show ?thesis
    by (simp add: download_filename_def rsplit1_def without_final_extension_no_dot)
qed

lemma notice_filter_download: "list_all is_notice ui \<Longrightarrow> filter is_download ui = []"
  by (induction ui) (auto elim: is_notice.elims)

lemma display_columns_download:
  assumes "DownloadButton l d f m \<in> set (snd (display_columns env name opt ready))"
  shows "m = ''image/png'' \<and> f = download_filename name
         \<and> (\<exists>final. ((opt = ''No Crop'' \<and> final = ready)
                      \<or> (opt \<noteq> ''No Crop''
                          \<and> st_cropper env ready (aspect_ratio_of opt) (cropper_key name opt)
                              = Inr (Some final)))
               \<and> finalizeForExport env final = Inr d)
         \<and> fst (display_columns env name opt ready) = Inr ()
         \<and> length (filter is_download (snd (display_columns env name opt ready))) = 1"
  using assms
  by (auto simp add: display_columns_def then_do_def crop_or_preview_def result_column_def
      split: if_splits sum.splits option.splits prod.splits)


text \<open>
  C9. A download button of a run has the media type \<^verbatim>\<open>image/png\<close> and the file name
  \<^verbatim>\<open><base>_processed.png\<close>, where the base is the uploaded file name without its final
  dot-extension. Its data are the bytes the export step produces for the final image:
  the composite when no crop is selected, the crop widget's result otherwise. A run
  that offers a download offers exactly one.
\<close>

theorem download_named_processed_png:
  assumes up: "uploaded_file inp = Some (name, b)"
    and dl: "DownloadButton l d f m \<in> set (snd (run_script env st inp))"
  shows "m = ''image/png'' \<and> f = without_final_extension name @ ''_processed.png''
         \<and> (\<exists>ready pre final.
               processing_steps env (fst (run_script env st inp)) b = (Inr ready, pre)
               \<and> ((crop_aspect_ratio_option inp = ''No Crop'' \<and> final = ready)
                    \<or> (crop_aspect_ratio_option inp \<noteq> ''No Crop''
                        \<and> st_cropper env ready (aspect_ratio_of (crop_aspect_ratio_option inp))
                             (cropper_key name (crop_aspect_ratio_option inp))
                            = Inr (Some final)))
               \<and> finalizeForExport env final = Inr d)
         \<and> length (filter is_download (snd (run_script env st inp))) = 1"
proof -
  let ?st = "fst (run_script env st inp)"
  let ?opt = "crop_aspect_ratio_option inp"
  obtain r pre where ps: "processing_steps env ?st b = (r, pre)"
    by (cases "processing_steps env ?st b")
  have n: "list_all is_notice pre"
    using processing_steps_notices [of env ?st b] by (simp add: ps)
  have pre: "DownloadButton l d f m \<notin> set pre" "filter is_download pre = []"
    using n notice_not_download [OF n] by (auto simp add: list_ex_iff notice_filter_download)
  have in_main: "DownloadButton l d f m \<in> set (main_area env ?st inp)"
    using dl by (simp add: run_script_calls page_controls_def)
  show ?thesis
  proof (cases r)
    case (Inl e)
    with in_main pre show ?thesis
      by (simp add: main_area_failed [OF up] ps error_report_def)
  next
    case (Inr ready)
    with ps have ps': "processing_steps env ?st b = (Inr ready, pre)" by simp
    note ma = main_area_columns [OF up ps']
    have "DownloadButton l d f m \<in> set (snd (display_columns env name ?opt ready))"
      using in_main pre by (auto simp add: ma error_report_def split: sum.splits)
    note dc = display_columns_download [OF this]
    have "length (filter is_download (snd (run_script env st inp))) = 1"
      using dc pre by (simp add: run_script_calls ma page_controls_def)
    with dc ps' show ?thesis by (auto simp add: download_filename_spec)
  qed
qed

theorem download_named_processed_png_witness:
  "uploaded_file (sample_inputs ''photo.png'' [128] ''No Crop'') = Some (''photo.png'', [128])
   \<and> DownloadButton ''4. Download Final Image'' [191, 64, 64, 191, 245, 1, 1, 245]
         ''photo_processed.png'' ''image/png''
       \<in> set (snd (run_script sample_env red_state (sample_inputs ''photo.png'' [128] ''No Crop'')))
   \<and> ''photo_processed.png'' = without_final_extension ''photo.png'' @ ''_processed.png''
   \<and> length (filter is_download
         (snd (run_script sample_env red_state (sample_inputs ''photo.png'' [128] ''No Crop'')))) = 1"
proof -
  let ?inp = "sample_inputs ''photo.png'' [128] ''No Crop''"
  have up: "uploaded_file ?inp = Some (''photo.png'', [128])" by (simp add: sample_inputs_def)
  have opt: "crop_aspect_ratio_option ?inp = ''No Crop''" by (simp add: sample_inputs_def)
  have sr: "fst (run_script sample_env red_state ?inp) = red_state"
    by (rule run_script_no_click) (simp_all add: red_state_def sample_inputs_def)
  have ps: "processing_steps sample_env (fst (run_script sample_env red_state ?inp)) [128] =
     (Inr sample_on_red, [Spinner ''Removing background...''])"
    by (simp add: sr sample_processing_red)
  have fn: "download_filename ''photo.png'' = ''photo_processed.png''" by code_simp
  have rc: "result_column sample_env ''photo.png'' (Some sample_on_red) =
      (Inr (),
       [Header ''Final Result'', ImageShown sample_on_red (Some ''Processed Output''),
        DownloadButton ''4. Download Final Image'' [191, 64, 64, 191, 245, 1, 1, 245]
          ''photo_processed.png'' ''image/png''])"
    by (simp add: result_column_def finalizeForExport_def sample_on_red_def sample_env_def
        sample_save_def fn)
  have dl: "DownloadButton ''4. Download Final Image'' [191, 64, 64, 191, 245, 1, 1, 245]
         ''photo_processed.png'' ''image/png''
       \<in> set (snd (run_script sample_env red_state ?inp))"
    by (simp add: run_script_calls main_area_columns [OF up ps] opt display_columns_no_crop rc)
  note r = download_named_processed_png [OF up dl]
  have a: "''photo_processed.png'' = without_final_extension ''photo.png'' @ ''_processed.png''"
    using r by (elim conjE) assumption
  have c: "length (filter is_download (snd (run_script sample_env red_state ?inp))) = 1"
    using r by (elim conjE) assumption
  show ?thesis by (intro conjI up dl a c)
qed

section \<open>The selected colour\<close>

lemma digit16_char:
  assumes "digit16 c = Some d"
  shows "d < 16" and "\<not> py_isspace c" and "c \<noteq> CHR ''_''" and "c \<noteq> CHR ''+''"
    and "c \<noteq> CHR ''-''" and "c \<noteq> CHR ''x''" and "c \<noteq> CHR ''X''" and "c \<noteq> CHR ''#''"
  using assms by (auto simp add: digit16_def py_isspace_def Let_def split: if_splits)

lemma py_int16_two_digits:
  assumes "digit16 c1 = Some d1" and "digit16 c2 = Some d2"
  shows "py_int16 [c1, c2] = Inr (int (16 * d1 + d2))"
  using digit16_char [OF assms(1)] digit16_char [OF assms(2)] assms
  by (simp add: py_int16_def skip_prefix16_def Let_def)

lemma hex_to_rgb_valid:
  assumes "valid_color c"
  shows "\<exists>r g b. hex_to_rgb c = Inr (r, g, b)
           \<and> 0 \<le> r \<and> r \<le> 255 \<and> 0 \<le> g \<and> g \<le> 255 \<and> 0 \<le> b \<and> b \<le> 255"
proof -
  from assms obtain h where c: "c = CHR ''#'' # h" and len: "length h = 6"
    and dig: "list_all (\<lambda>d. digit16 d \<noteq> None) h"
    by (auto simp add: valid_color_def split: list.splits)
  from len obtain h1 h2 h3 h4 h5 h6 where h: "h = [h1, h2, h3, h4, h5, h6]"
    by (auto simp add: length_Suc_conv eval_nat_numeral)
  from dig h obtain d1 d2 d3 d4 d5 d6 where
    d: "digit16 h1 = Some d1" "digit16 h2 = Some d2" "digit16 h3 = Some d3"
       "digit16 h4 = Some d4" "digit16 h5 = Some d5" "digit16 h6 = Some d6"
    by auto
  have strip: "lstrip (CHR ''#'') c = h"
    using digit16_char(8) [OF d(1)] by (simp add: lstrip_def c h)
  have "hex_to_rgb c = Inr (int (16 * d1 + d2), int (16 * d3 + d4), int (16 * d5 + d6))"
    by (simp add: hex_to_rgb_def strip h slice2_def py_int16_two_digits d)
  moreover have "16 * d1 + d2 \<le> 255" "16 * d3 + d4 \<le> 255" "16 * d5 + d6 \<le> 255"
    using digit16_char(1) [OF d(1)] digit16_char(1) [OF d(2)] digit16_char(1) [OF d(3)]
      digit16_char(1) [OF d(4)] digit16_char(1) [OF d(5)] digit16_char(1) [OF d(6)]
    by simp_all
  ultimately show ?thesis by simp
qed

lemma valid_presets:
  "valid_color ''#FF0000''" "valid_color ''#0000FF''" "valid_color ''#FFFFFF''"
  by (simp_all add: valid_color_def digit16_def)

text \<open>
  C5. After a run in which a preset button is clicked, the slot \<^verbatim>\<open>selected_color\<close> holds
  that preset's value (\<^verbatim>\<open>#FF0000\<close>, \<^verbatim>\<open>#0000FF\<close>, \<^verbatim>\<open>#FFFFFF\<close>), whatever the session
  state held before, a value written by the colour picker included; of several
  buttons reported in one run the last in the script wins. A change of the colour
  picker to \<open>v\<close> runs the callback before the script, so that the run that follows
  finds \<open>v\<close> in the slot. The main area of a run is computed from the state the
  buttons leave.
\<close>

theorem presets_and_picker_set_selected_color:
  "(white_button inp \<longrightarrow> fst (run_script env st inp) ''selected_color'' = Some ''#FFFFFF'')
   \<and> (blue_button inp \<and> \<not> white_button inp \<longrightarrow>
         fst (run_script env st inp) ''selected_color'' = Some ''#0000FF'')
   \<and> (red_button inp \<and> \<not> blue_button inp \<and> \<not> white_button inp \<longrightarrow>
         fst (run_script env st inp) ''selected_color'' = Some ''#FF0000'')
   \<and> (\<not> red_button inp \<and> \<not> blue_button inp \<and> \<not> white_button inp \<longrightarrow>
         (\<exists>st'. picker_changed v st = Inr st'
            \<and> fst (run_script env st' inp) ''selected_color'' = Some v))
   \<and> snd (run_script env st inp) =
         page_controls (fst (run_script env st inp))
         @ main_area env (fst (run_script env st inp)) inp"
  by (simp add: run_script_def Let_def preset_buttons_def init_session_def picker_changed_def
      update_color_from_picker_def)

theorem presets_and_picker_set_selected_color_witness:
  "blue_state ''color_picker_value'' = Some ''#0000FF''
   \<and> white_button click_white
   \<and> fst (run_script sample_env blue_state click_white) ''selected_color'' = Some ''#FFFFFF''
   \<and> blue_button click_blue \<and> \<not> white_button click_blue
   \<and> fst (run_script sample_env red_state click_blue) ''selected_color'' = Some ''#0000FF''
   \<and> red_button click_red \<and> \<not> blue_button click_red \<and> \<not> white_button click_red
   \<and> fst (run_script sample_env blue_state click_red) ''selected_color'' = Some ''#FF0000''
   \<and> \<not> red_button no_click \<and> \<not> blue_button no_click \<and> \<not> white_button no_click
   \<and> (\<exists>st'. picker_changed ''#12ab9F'' red_state = Inr st'
         \<and> fst (run_script sample_env st' no_click) ''selected_color'' = Some ''#12ab9F'')"
proof -
  have p: "blue_state ''color_picker_value'' = Some ''#0000FF''" by (simp add: blue_state_def)
  have w: "white_button click_white" by (simp add: click_white_def)
  have b: "blue_button click_blue \<and> \<not> white_button click_blue" by (simp add: click_blue_def)
  have r: "red_button click_red \<and> \<not> blue_button click_red \<and> \<not> white_button click_red"
    by (simp add: click_red_def)
  have n: "\<not> red_button no_click \<and> \<not> blue_button no_click \<and> \<not> white_button no_click"
    by (simp add: no_click_def)
  note t1 = presets_and_picker_set_selected_color
      [where inp = click_white and env = sample_env and st = blue_state,
       THEN conjunct1, THEN mp, OF w]
  note t2 = presets_and_picker_set_selected_color
      [where inp = click_blue and env = sample_env and st = red_state,
       THEN conjunct2, THEN conjunct1, THEN mp, OF b]
  note t3 = presets_and_picker_set_selected_color
      [where inp = click_red and env = sample_env and st = blue_state,
       THEN conjunct2, THEN conjunct2, THEN conjunct1, THEN mp, OF r]
  note t4 = presets_and_picker_set_selected_color
      [where inp = no_click and env = sample_env and st = red_state and v = "''#12ab9F''",
       THEN conjunct2, THEN conjunct2, THEN conjunct2, THEN conjunct1, THEN mp, OF n]
  from p w t1 b t2 r t3 n t4 show ?thesis by (intro conjI) (elim conjE, assumption)+
qed

section \<open>The export step\<close>















section \<open>The error report\<close>

lemma error_stateI:
  assumes up: "uploaded_file inp = Some (name, b)"
    and ps: "processing_steps env (fst (run_script env st inp)) b = (Inl e, pre)"
  shows "error_state env st inp pre e"
proof -
  let ?st = "fst (run_script env st inp)"
  have n: "list_all is_notice pre"
    using processing_steps_notices [of env ?st b] by (simp add: ps)
  have calls: "snd (run_script env st inp) = page_controls ?st @ pre @ error_report e"
    by (simp add: run_script_calls main_area_failed [OF up ps])
  have "\<not> list_ex is_download (snd (run_script env st inp))"
    using notice_not_download [OF n]
    by (simp add: calls page_controls_no_download error_report_no_download)
  with calls show ?thesis by (simp add: error_state_def error_report_def)
qed

text \<open>
  C7, as the script has it. With a file uploaded, an exception that leaves the body of the
  \<^verbatim>\<open>try\<close> of line 65 before the columns are drawn puts the run in the error state: the calls
  of the run are the page controls, the notices made so far, and then exactly the four calls of
  lines 159-164 with the exception itself (message and traceback), and the run offers no download.
  The raising points are taken one by one: \<^verbatim>\<open>Image.open\<close> (the undecodable upload),
  \<^verbatim>\<open>remove\<close>, the parsing of the colour, a masked paste raising anything but a
  \<^verbatim>\<open>ValueError\<close>, and the unmasked paste that follows a \<^verbatim>\<open>ValueError\<close> of the masked one.
  A \<^verbatim>\<open>ValueError\<close> of the masked paste alone is caught at line 88 and is not in this list.
\<close>

theorem processing_exception_reported:
  assumes up: "uploaded_file inp = Some (name, b)"
  shows "(image_open env b = Inl e \<longrightarrow> error_state env st inp [] e)
    \<and> (\<forall>im. image_open env b = Inr im \<and> remove env im = Inl e \<longrightarrow>
          error_state env st inp [Spinner ''Removing background...''] e)
    \<and> (\<forall>im fg c. image_open env b = Inr im \<and> remove env im = Inr fg
          \<and> fst (run_script env st inp) ''selected_color'' = Some c \<and> hex_to_rgb c = Inl e \<longrightarrow>
          error_state env st inp [Spinner ''Removing background...''] e)
    \<and> (\<forall>im fg c rgb cls msg. image_open env b = Inr im \<and> remove env im = Inr fg
          \<and> fst (run_script env st inp) ''selected_color'' = Some c \<and> hex_to_rgb c = Inr rgb
          \<and> paste env (Image_new_RGB (size_im fg) rgb) fg (0, 0) (Some fg)
              = Inl (OtherException cls msg) \<longrightarrow>
          error_state env st inp [Spinner ''Removing background...''] (OtherException cls msg))
    \<and> (\<forall>im fg c rgb msg. image_open env b = Inr im \<and> remove env im = Inr fg
          \<and> fst (run_script env st inp) ''selected_color'' = Some c \<and> hex_to_rgb c = Inr rgb
          \<and> paste env (Image_new_RGB (size_im fg) rgb) fg (0, 0) (Some fg)
              = Inl (ValueError msg)
          \<and> paste env (Image_new_RGB (size_im fg) rgb) fg (0, 0) None = Inl e \<longrightarrow>
          error_state env st inp
            [Spinner ''Removing background...'',
             Warning (''Pasting with alpha mask failed ('' @ msg
               @ ''), attempting direct paste.'')] e)"
proof (intro conjI allI impI)
  let ?st = "fst (run_script env st inp)"
  show "error_state env st inp [] e" if "image_open env b = Inl e"
    by (rule error_stateI [OF up]) (simp add: processing_steps_open_fails that)
  show "error_state env st inp [Spinner ''Removing background...''] e"
    if "image_open env b = Inr im \<and> remove env im = Inl e" for im
    by (rule error_stateI [OF up]) (use that in \<open>simp add: processing_steps_remove_fails\<close>)
  show "error_state env st inp [Spinner ''Removing background...''] e"
    if "image_open env b = Inr im \<and> remove env im = Inr fg
          \<and> ?st ''selected_color'' = Some c \<and> hex_to_rgb c = Inl e" for im fg c
    by (rule error_stateI [OF up])
      (use that in \<open>simp add: processing_steps_removed add_background_def\<close>)
  show "error_state env st inp [Spinner ''Removing background...''] (OtherException cls msg)"
    if "image_open env b = Inr im \<and> remove env im = Inr fg
          \<and> ?st ''selected_color'' = Some c \<and> hex_to_rgb c = Inr rgb
          \<and> paste env (Image_new_RGB (size_im fg) rgb) fg (0, 0) (Some fg)
              = Inl (OtherException cls msg)" for im fg c rgb cls msg
    by (rule error_stateI [OF up])
      (use that in \<open>simp add: processing_steps_removed add_background_def applyBackground_def
        masked_paste_def\<close>)
  show "error_state env st inp
            [Spinner ''Removing background...'',
             Warning (''Pasting with alpha mask failed ('' @ msg
               @ ''), attempting direct paste.'')] e"
    if "image_open env b = Inr im \<and> remove env im = Inr fg
          \<and> ?st ''selected_color'' = Some c \<and> hex_to_rgb c = Inr rgb
          \<and> paste env (Image_new_RGB (size_im fg) rgb) fg (0, 0) (Some fg)
              = Inl (ValueError msg)
          \<and> paste env (Image_new_RGB (size_im fg) rgb) fg (0, 0) None = Inl e"
    for im fg c rgb msg
    by (rule error_stateI [OF up])
      (use that in \<open>simp add: processing_steps_removed add_background_def applyBackground_def
        masked_paste_def direct_paste_def paste_warning_def\<close>)
qed


theorem processing_exception_reported_witness:
  "uploaded_file (sample_inputs ''photo.png'' [] ''No Crop'') = Some (''photo.png'', [])
   \<and> image_open sample_env [] =
       Inl (OtherException ''UnidentifiedImageError'' ''cannot identify image file'')
   \<and> error_state sample_env fresh_state (sample_inputs ''photo.png'' [] ''No Crop'') []
       (OtherException ''UnidentifiedImageError'' ''cannot identify image file'')
   \<and> uploaded_file (sample_inputs ''photo.png'' [128] ''No Crop'') = Some (''photo.png'', [128])
   \<and> image_open removal_fails_env [128] = Inr sample_decoded
   \<and> remove removal_fails_env sample_decoded = Inl model_failure
   \<and> error_state removal_fails_env red_state (sample_inputs ''photo.png'' [128] ''No Crop'')
       [Spinner ''Removing background...''] model_failure
   \<and> hex_to_rgb ''#GG0000'' = Inl (invalid_literal ''GG'')
   \<and> error_state sample_env garbled_state (sample_inputs ''photo.png'' [128] ''No Crop'')
       [Spinner ''Removing background...''] (invalid_literal ''GG'')
   \<and> paste exhausted_env (Image_new_RGB (size_im sample_mask) (255, 0, 0)) sample_mask (0, 0)
         (Some sample_mask) = Inl (OtherException ''MemoryError'' [])
   \<and> error_state exhausted_env red_state (sample_inputs ''photo.png'' [128] ''No Crop'')
       [Spinner ''Removing background...''] (OtherException ''MemoryError'' [])
   \<and> paste unconvertible_env (Image_new_RGB (size_im sample_mask) (255, 0, 0)) sample_mask (0, 0)
         (Some sample_mask) = Inl (ValueError ''conversion not supported'')
   \<and> paste unconvertible_env (Image_new_RGB (size_im sample_mask) (255, 0, 0)) sample_mask (0, 0)
         None = Inl (ValueError ''conversion not supported'')
   \<and> error_state unconvertible_env red_state (sample_inputs ''photo.png'' [128] ''No Crop'')
       [Spinner ''Removing background...'',
        Warning ''Pasting with alpha mask failed (conversion not supported), attempting direct paste.'']
       (ValueError ''conversion not supported'')"
proof -
  let ?inp = "sample_inputs ''photo.png'' [128] ''No Crop''"
  note t = processing_exception_reported
  have up0: "uploaded_file (sample_inputs ''photo.png'' [] ''No Crop'') = Some (''photo.png'', [])"
    by (simp add: sample_inputs_def)
  have up: "uploaded_file ?inp = Some (''photo.png'', [128])" by (simp add: sample_inputs_def)
  have o0: "image_open sample_env [] =
       Inl (OtherException ''UnidentifiedImageError'' ''cannot identify image file'')"
    by code_simp
  have a: "error_state sample_env fresh_state (sample_inputs ''photo.png'' [] ''No Crop'') []
       (OtherException ''UnidentifiedImageError'' ''cannot identify image file'')"
    by (rule t [OF up0, THEN conjunct1, THEN mp, OF o0])
  have o1: "image_open removal_fails_env [128] = Inr sample_decoded" by code_simp
  have r1: "remove removal_fails_env sample_decoded = Inl model_failure" by code_simp
  have b: "error_state removal_fails_env red_state ?inp [Spinner ''Removing background...'']
       model_failure"
    by (rule t [OF up, THEN conjunct2, THEN conjunct1, rule_format, OF conjI [OF o1 r1]])
  have o2: "image_open sample_env [128] = Inr sample_decoded" by code_simp
  have r2: "remove sample_env sample_decoded = Inr sample_cutout" by code_simp
  have s2: "fst (run_script sample_env garbled_state ?inp) ''selected_color'' = Some ''#GG0000''"
    by (simp add: run_script_no_click garbled_state_def sample_inputs_def)
  have h2: "hex_to_rgb ''#GG0000'' = Inl (invalid_literal ''GG'')" by code_simp
  have c: "error_state sample_env garbled_state ?inp [Spinner ''Removing background...'']
       (invalid_literal ''GG'')"
    by (rule t [OF up, THEN conjunct2, THEN conjunct2, THEN conjunct1, rule_format,
          OF conjI [OF o2 conjI [OF r2 conjI [OF s2 h2]]]])
  have hex: "hex_to_rgb ''#FF0000'' = Inr (255, 0, 0)" by code_simp
  have o3: "image_open exhausted_env [128] = Inr sample_decoded" by code_simp
  have r3: "remove exhausted_env sample_decoded = Inr sample_mask" by code_simp
  have s3: "fst (run_script exhausted_env red_state ?inp) ''selected_color'' = Some ''#FF0000''"
    by (simp add: run_script_no_click red_state_def sample_inputs_def)
  have m3: "paste exhausted_env (Image_new_RGB (size_im sample_mask) (255, 0, 0)) sample_mask
      (0, 0) (Some sample_mask) = Inl (OtherException ''MemoryError'' [])"
    by code_simp
  have d: "error_state exhausted_env red_state ?inp [Spinner ''Removing background...'']
       (OtherException ''MemoryError'' [])"
    by (rule t [OF up, THEN conjunct2, THEN conjunct2, THEN conjunct2, THEN conjunct1,
          rule_format, OF conjI [OF o3 conjI [OF r3 conjI [OF s3 conjI [OF hex m3]]]]])
  have o4: "image_open unconvertible_env [128] = Inr sample_decoded" by code_simp
  have r4: "remove unconvertible_env sample_decoded = Inr sample_mask" by code_simp
  have s4: "fst (run_script unconvertible_env red_state ?inp) ''selected_color'' = Some ''#FF0000''"
    by (simp add: run_script_no_click red_state_def sample_inputs_def)
  have m4: "paste unconvertible_env (Image_new_RGB (size_im sample_mask) (255, 0, 0)) sample_mask
      (0, 0) (Some sample_mask) = Inl (ValueError ''conversion not supported'')"
    by code_simp
  have d4: "paste unconvertible_env (Image_new_RGB (size_im sample_mask) (255, 0, 0)) sample_mask
      (0, 0) None = Inl (ValueError ''conversion not supported'')"
    by code_simp
  have e: "error_state unconvertible_env red_state ?inp
       [Spinner ''Removing background...'',
        Warning ''Pasting with alpha mask failed (conversion not supported), attempting direct paste.'']
       (ValueError ''conversion not supported'')"
    using t [OF up, THEN conjunct2, THEN conjunct2, THEN conjunct2, THEN conjunct2,
          rule_format, OF conjI [OF o4 conjI [OF r4 conjI [OF s4 conjI [OF hex conjI [OF m4 d4]]]]]]
    by simp
  show ?thesis by (intro conjI up0 o0 a up o1 r1 b h2 c m3 d m4 d4 e)
qed

text \<open>
  C7 as stated fails for one exception raised during compositing: the \<^verbatim>\<open>ValueError\<close> of the
  masked paste. With a background removal that returns an RGB image, Pillow's paste refuses the
  mask (\<^verbatim>\<open>bad transparency mask\<close>), line 88 catches it, the unmasked paste returns, and the run
  offers a download and makes none of the error calls.
\<close>

theorem caught_ValueError_is_no_error_state:
  "image_open opaque_env [128] = Inr sample_decoded
   \<and> remove opaque_env sample_decoded = Inr sample_decoded
   \<and> paste opaque_env (Image_new_RGB (size_im sample_decoded) (255, 0, 0)) sample_decoded (0, 0)
         (Some sample_decoded) = Inl (ValueError ''bad transparency mask'')
   \<and> list_ex is_download
         (snd (run_script opaque_env red_state (sample_inputs ''photo.png'' [128] ''No Crop'')))
   \<and> \<not> list_ex is_error_call
         (snd (run_script opaque_env red_state (sample_inputs ''photo.png'' [128] ''No Crop'')))"
  by code_simp


section \<open>Recovery from a refused mask\<close>

lemma pil_paste_direct_RGB:
  assumes m: "mode fg = ''RGB''" and wf: "wf_image fg"
  shows "pil_paste conv (Image_new_RGB (size_im fg) rgb) fg (0, 0) None =
         Inr \<lparr>mode = ''RGB'', size_im = size_im fg, pixels = pixels fg\<rparr>"
proof -
  obtain w h where wh: "size_im fg = (w, h)" by (cases "size_im fg")
  obtain r g b where rgb: "rgb = (r, g, b)" by (cases rgb)
  have len: "length (pixels fg) = w * h" using wf wh by (simp add: wf_image_def)
  show ?thesis
  proof (cases "w = 0 \<or> h = 0")
    case True
    then have "pixels fg = []" using len by auto
    with True show ?thesis
      by (auto simp add: pil_paste_def imaging_paste_def Image_new_RGB_def m wh rgb)
  next
    case False
    have nth: "map (\<lambda>i. pixels fg ! i) [0..<w * h] = pixels fg"
      using map_nth [of "pixels fg"] by (simp add: len)
    from False have "pil_paste conv (Image_new_RGB (size_im fg) rgb) fg (0, 0) None =
         Inr \<lparr>mode = ''RGB'', size_im = size_im fg,
               pixels = map (\<lambda>i. pixels fg ! i) [0..<w * h]\<rparr>"
      by (auto simp add: pil_paste_def imaging_paste_def Image_new_RGB_def m wh rgb
          paste_rule_def Let_def row_major_index)
    then show ?thesis by (simp only: nth)
  qed
qed


text \<open>
  C3, for a masked paste that raises \<^verbatim>\<open>ValueError\<close>. The compositing step then is the unmasked
  paste of the foreground on the colour background at (0, 0), together with the warning of line 89
  carrying the message of the exception; nothing is assumed of the unmasked paste for this.
  When the unmasked paste returns an image, the processing steps return that image, the columns
  are drawn from it and, without cropping, it is the image previewed. When the unmasked paste
  raises, the pass ends in the error report after the warning. With Pillow's paste and an RGB
  foreground of well-formed size the unmasked paste returns the foreground's own pixels.
\<close>

theorem fallback_on_ValueError:
  assumes up: "uploaded_file inp = Some (name, b)"
    and op: "image_open env b = Inr im" and rm: "remove env im = Inr fg"
    and sel: "st ''selected_color'' = Some c" and hex: "hex_to_rgb c = Inr rgb"
    and masked: "paste env (Image_new_RGB (size_im fg) rgb) fg (0, 0) (Some fg)
                   = Inl (ValueError msg)"
  shows "applyBackground env fg rgb =
           (paste env (Image_new_RGB (size_im fg) rgb) fg (0, 0) None,
            [Warning (''Pasting with alpha mask failed ('' @ msg
               @ ''), attempting direct paste.'')])
         \<and> (\<forall>out. paste env (Image_new_RGB (size_im fg) rgb) fg (0, 0) None = Inr out \<longrightarrow>
                processing_steps env st b =
                  (Inr out,
                   [Spinner ''Removing background...'',
                    Warning (''Pasting with alpha mask failed ('' @ msg
                      @ ''), attempting direct paste.'')])
                \<and> main_area env st inp =
                    [Spinner ''Removing background...'',
                     Warning (''Pasting with alpha mask failed ('' @ msg
                       @ ''), attempting direct paste.'')]
                    @ snd (display_columns env name (crop_aspect_ratio_option inp) out)
                    @ (case fst (display_columns env name (crop_aspect_ratio_option inp) out) of
                         Inl e \<Rightarrow> error_report e
                       | Inr u \<Rightarrow> [])
                \<and> (crop_aspect_ratio_option inp = ''No Crop'' \<longrightarrow>
                      ImageShown out None \<in> set (main_area env st inp)))
         \<and> (\<forall>e. paste env (Image_new_RGB (size_im fg) rgb) fg (0, 0) None = Inl e \<longrightarrow>
                main_area env st inp =
                  [Spinner ''Removing background...'',
                   Warning (''Pasting with alpha mask failed ('' @ msg
                     @ ''), attempting direct paste.'')]
                  @ error_report e)
         \<and> (paste env = pil_paste (convert env) \<and> mode fg = ''RGB'' \<and> wf_image fg \<longrightarrow>
                paste env (Image_new_RGB (size_im fg) rgb) fg (0, 0) None =
                  Inr \<lparr>mode = ''RGB'', size_im = size_im fg, pixels = pixels fg\<rparr>)"
proof (intro conjI allI impI)
  let ?direct = "paste env (Image_new_RGB (size_im fg) rgb) fg (0, 0) None"
  let ?warn = "Warning (''Pasting with alpha mask failed ('' @ msg
               @ ''), attempting direct paste.'')"
  show ab: "applyBackground env fg rgb = (?direct, [?warn])"
    using masked
    by (simp add: applyBackground_def masked_paste_def direct_paste_def paste_warning_def)
  have ps: "processing_steps env st b = (?direct, [Spinner ''Removing background...'', ?warn])"
    by (simp add: processing_steps_removed [OF op rm] add_background_def sel hex ab)
  show "?direct = Inr \<lparr>mode = ''RGB'', size_im = size_im fg, pixels = pixels fg\<rparr>"
    if "paste env = pil_paste (convert env) \<and> mode fg = ''RGB'' \<and> wf_image fg"
    using that by (simp add: pil_paste_direct_RGB)
  show "main_area env st inp = [Spinner ''Removing background...'', ?warn] @ error_report e"
    if "?direct = Inl e" for e
    using main_area_failed [OF up, of env st e "[Spinner ''Removing background...'', ?warn]"]
    by (simp add: ps that)
  fix out assume d: "?direct = Inr out"
  with ps show ps': "processing_steps env st b =
      (Inr out, [Spinner ''Removing background...'', ?warn])"
    by simp
  show ma: "main_area env st inp =
      [Spinner ''Removing background...'', ?warn]
      @ snd (display_columns env name (crop_aspect_ratio_option inp) out)
      @ (case fst (display_columns env name (crop_aspect_ratio_option inp) out) of
           Inl e \<Rightarrow> error_report e
         | Inr u \<Rightarrow> [])"
    by (rule main_area_columns [OF up ps'])
  show "ImageShown out None \<in> set (main_area env st inp)"
    if "crop_aspect_ratio_option inp = ''No Crop''"
    by (simp add: ma that display_columns_no_crop)
qed

theorem fallback_on_ValueError_witness:
  "uploaded_file (sample_inputs ''photo.png'' [128] ''No Crop'') = Some (''photo.png'', [128])
   \<and> red_state ''selected_color'' = Some ''#FF0000'' \<and> hex_to_rgb ''#FF0000'' = Inr (255, 0, 0)
   \<and> image_open opaque_env [128] = Inr sample_decoded
   \<and> remove opaque_env sample_decoded = Inr sample_decoded
   \<and> paste opaque_env (Image_new_RGB (size_im sample_decoded) (255, 0, 0)) sample_decoded (0, 0)
         (Some sample_decoded) = Inl (ValueError ''bad transparency mask'')
   \<and> paste opaque_env (Image_new_RGB (size_im sample_decoded) (255, 0, 0)) sample_decoded (0, 0)
         None = Inr sample_decoded
   \<and> processing_steps opaque_env red_state [128] =
       (Inr sample_decoded,
        [Spinner ''Removing background...'',
         Warning ''Pasting with alpha mask failed (bad transparency mask), attempting direct paste.''])
   \<and> ImageShown sample_decoded None
       \<in> set (main_area opaque_env red_state (sample_inputs ''photo.png'' [128] ''No Crop''))
   \<and> image_open unconvertible_env [128] = Inr sample_decoded
   \<and> remove unconvertible_env sample_decoded = Inr sample_mask
   \<and> paste unconvertible_env (Image_new_RGB (size_im sample_mask) (255, 0, 0)) sample_mask (0, 0)
         (Some sample_mask) = Inl (ValueError ''conversion not supported'')
   \<and> paste unconvertible_env (Image_new_RGB (size_im sample_mask) (255, 0, 0)) sample_mask (0, 0)
         None = Inl (ValueError ''conversion not supported'')
   \<and> main_area unconvertible_env red_state (sample_inputs ''photo.png'' [128] ''No Crop'') =
       [Spinner ''Removing background...'',
        Warning ''Pasting with alpha mask failed (conversion not supported), attempting direct paste.'']
       @ error_report (ValueError ''conversion not supported'')"
proof -
  let ?inp = "sample_inputs ''photo.png'' [128] ''No Crop''"
  note t = fallback_on_ValueError
  have up: "uploaded_file ?inp = Some (''photo.png'', [128])" by (simp add: sample_inputs_def)
  have nc: "crop_aspect_ratio_option ?inp = ''No Crop''" by (simp add: sample_inputs_def)
  have sel: "red_state ''selected_color'' = Some ''#FF0000''" by (simp add: red_state_def)
  have hex: "hex_to_rgb ''#FF0000'' = Inr (255, 0, 0)" by code_simp
  have o1: "image_open opaque_env [128] = Inr sample_decoded" by code_simp
  have r1: "remove opaque_env sample_decoded = Inr sample_decoded" by code_simp
  have m1: "paste opaque_env (Image_new_RGB (size_im sample_decoded) (255, 0, 0)) sample_decoded
      (0, 0) (Some sample_decoded) = Inl (ValueError ''bad transparency mask'')"
    by code_simp
  have d1: "paste opaque_env (Image_new_RGB (size_im sample_decoded) (255, 0, 0)) sample_decoded
      (0, 0) None = Inr sample_decoded"
    by code_simp
  note t1 = t [where st = red_state, OF up o1 r1 sel hex m1,
      THEN conjunct2, THEN conjunct1, rule_format, OF d1]
  have p1: "processing_steps opaque_env red_state [128] =
       (Inr sample_decoded,
        [Spinner ''Removing background...'',
         Warning ''Pasting with alpha mask failed (bad transparency mask), attempting direct paste.''])"
    using t1 [THEN conjunct1] by simp
  have i1: "ImageShown sample_decoded None \<in> set (main_area opaque_env red_state ?inp)"
    by (rule t1 [THEN conjunct2, THEN conjunct2, THEN mp, OF nc])
  have o2: "image_open unconvertible_env [128] = Inr sample_decoded" by code_simp
  have r2: "remove unconvertible_env sample_decoded = Inr sample_mask" by code_simp
  have m2: "paste unconvertible_env (Image_new_RGB (size_im sample_mask) (255, 0, 0)) sample_mask
      (0, 0) (Some sample_mask) = Inl (ValueError ''conversion not supported'')"
    by code_simp
  have d2: "paste unconvertible_env (Image_new_RGB (size_im sample_mask) (255, 0, 0)) sample_mask
      (0, 0) None = Inl (ValueError ''conversion not supported'')"
    by code_simp
  have a2: "main_area unconvertible_env red_state ?inp =
       [Spinner ''Removing background...'',
        Warning ''Pasting with alpha mask failed (conversion not supported), attempting direct paste.'']
       @ error_report (ValueError ''conversion not supported'')"
    using t [where st = red_state, OF up o2 r2 sel hex m2,
      THEN conjunct2, THEN conjunct2, THEN conjunct1, rule_format, OF d2]
    by simp
  show ?thesis by (intro conjI up sel hex o1 r1 m1 d1 p1 i1 o2 r2 m2 d2 a2)
qed

text \<open>
  C3 as stated fails twice, both times with Pillow's own paste. A masked paste that fails with an
  exception other than \<^verbatim>\<open>ValueError\<close> (here the \<^verbatim>\<open>MemoryError\<close> of the conversion of the
  foreground) gets neither warning nor fallback and the pass ends in the error report. And after a
  \<^verbatim>\<open>ValueError\<close> of the masked paste the unmasked paste can raise as well (here the same
  unsupported conversion): the warning is shown, but processing does not continue and the pass
  ends in the error report.
\<close>

theorem fallback_not_for_every_failure:
  "image_open exhausted_env [128] = Inr sample_decoded
   \<and> remove exhausted_env sample_decoded = Inr sample_mask
   \<and> paste exhausted_env (Image_new_RGB (size_im sample_mask) (255, 0, 0)) sample_mask (0, 0)
         (Some sample_mask) = Inl (OtherException ''MemoryError'' [])
   \<and> applyBackground exhausted_env sample_mask (255, 0, 0) =
       (Inl (OtherException ''MemoryError'' []), [])
   \<and> main_area exhausted_env red_state (sample_inputs ''photo.png'' [128] ''No Crop'') =
       Spinner ''Removing background...'' # error_report (OtherException ''MemoryError'' [])
   \<and> image_open unconvertible_env [128] = Inr sample_decoded
   \<and> remove unconvertible_env sample_decoded = Inr sample_mask
   \<and> paste unconvertible_env (Image_new_RGB (size_im sample_mask) (255, 0, 0)) sample_mask (0, 0)
         (Some sample_mask) = Inl (ValueError ''conversion not supported'')
   \<and> paste unconvertible_env (Image_new_RGB (size_im sample_mask) (255, 0, 0)) sample_mask (0, 0)
         None = Inl (ValueError ''conversion not supported'')
   \<and> main_area unconvertible_env red_state (sample_inputs ''photo.png'' [128] ''No Crop'') =
       [Spinner ''Removing background...'',
        Warning ''Pasting with alpha mask failed (conversion not supported), attempting direct paste.'']
       @ error_report (ValueError ''conversion not supported'')"
  by code_simp


section \<open>The colour invariant\<close>

text \<open>
  C8. The slot \<^verbatim>\<open>selected_color\<close> is set to \<^verbatim>\<open>#FFFFFF\<close> when absent, and a first run without
  a click leaves that value. A run started without the slot or with a valid colour in it ends
  with a valid colour in it, whichever preset buttons are clicked; the picker's change handler
  keeps the invariant for every valid value of the widget, which is what Streamlit's colour
  picker delivers. A valid colour in the slot parses to three bands between 0 and 255, and the
  step that adds the background composites with exactly these. Every pass reads the slot: when
  the upload decodes and the background is removed, the processing steps of the run are the
  spinner followed by the compositing of the foreground with the colour parsed from the slot as
  it is after the controls, and the calls of the run are built from that composite.
\<close>

theorem selected_color_stays_valid:
  "(st ''selected_color'' = None \<longrightarrow> init_session st ''selected_color'' = Some ''#FFFFFF'')
   \<and> (st ''selected_color'' = None \<and> \<not> red_button inp \<and> \<not> blue_button inp
        \<and> \<not> white_button inp \<longrightarrow>
         fst (run_script env st inp) ''selected_color'' = Some ''#FFFFFF'')
   \<and> (st ''selected_color'' = None \<or> color_inv st \<longrightarrow> color_inv (fst (run_script env st inp)))
   \<and> (valid_color v \<longrightarrow> (\<exists>st'. picker_changed v st = Inr st' \<and> color_inv st'))
   \<and> (color_inv st \<longrightarrow>
         (\<exists>c r g b. st ''selected_color'' = Some c \<and> hex_to_rgb c = Inr (r, g, b)
            \<and> 0 \<le> r \<and> r \<le> 255 \<and> 0 \<le> g \<and> g \<le> 255 \<and> 0 \<le> b \<and> b \<le> 255
            \<and> add_background env st img = applyBackground env img (r, g, b)))
   \<and> (uploaded_file inp = Some (name, bs) \<and> image_open env bs = Inr im \<and> remove env im = Inr fg
        \<and> (st ''selected_color'' = None \<or> color_inv st) \<longrightarrow>
         (\<exists>c r g b. fst (run_script env st inp) ''selected_color'' = Some c
            \<and> hex_to_rgb c = Inr (r, g, b)
            \<and> 0 \<le> r \<and> r \<le> 255 \<and> 0 \<le> g \<and> g \<le> 255 \<and> 0 \<le> b \<and> b \<le> 255
            \<and> processing_steps env (fst (run_script env st inp)) bs =
                (fst (applyBackground env fg (r, g, b)),
                 Spinner ''Removing background...'' # snd (applyBackground env fg (r, g, b)))
            \<and> snd (run_script env st inp) =
                page_controls (fst (run_script env st inp))
                @ Spinner ''Removing background...'' # snd (applyBackground env fg (r, g, b))
                @ (case fst (applyBackground env fg (r, g, b)) of
                     Inl e \<Rightarrow> error_report e
                   | Inr ready \<Rightarrow>
                       snd (display_columns env name (crop_aspect_ratio_option inp) ready)
                       @ (case fst (display_columns env name (crop_aspect_ratio_option inp) ready) of
                            Inl e \<Rightarrow> error_report e
                          | Inr u \<Rightarrow> []))))"
proof (intro conjI impI)
  show "init_session st ''selected_color'' = Some ''#FFFFFF''" if "st ''selected_color'' = None"
    using that by (simp add: init_session_def)
  show "fst (run_script env st inp) ''selected_color'' = Some ''#FFFFFF''"
    if "st ''selected_color'' = None \<and> \<not> red_button inp \<and> \<not> blue_button inp
        \<and> \<not> white_button inp"
    using that by (simp add: run_script_state preset_buttons_def init_session_def)
  show "color_inv (fst (run_script env st inp))" if "st ''selected_color'' = None \<or> color_inv st"
    using that valid_presets
    by (auto simp add: run_script_state preset_buttons_def init_session_def color_inv_def)
  show "\<exists>st'. picker_changed v st = Inr st' \<and> color_inv st'" if "valid_color v"
    using that by (simp add: picker_changed_def update_color_from_picker_def color_inv_def)
  show "\<exists>c r g b. st ''selected_color'' = Some c \<and> hex_to_rgb c = Inr (r, g, b)
            \<and> 0 \<le> r \<and> r \<le> 255 \<and> 0 \<le> g \<and> g \<le> 255 \<and> 0 \<le> b \<and> b \<le> 255
            \<and> add_background env st img = applyBackground env img (r, g, b)"
    if "color_inv st"
  proof -
    from that obtain c where c: "st ''selected_color'' = Some c" "valid_color c"
      by (auto simp add: color_inv_def split: option.splits)
    from hex_to_rgb_valid [OF c(2)] obtain r g b where
      "hex_to_rgb c = Inr (r, g, b)" "0 \<le> r" "r \<le> 255" "0 \<le> g" "g \<le> 255" "0 \<le> b" "b \<le> 255"
      by blast
    with c(1) show ?thesis by (simp add: add_background_def)
  qed
  assume a: "uploaded_file inp = Some (name, bs) \<and> image_open env bs = Inr im
      \<and> remove env im = Inr fg \<and> (st ''selected_color'' = None \<or> color_inv st)"
  let ?st = "fst (run_script env st inp)"
  from a have up: "uploaded_file inp = Some (name, bs)" and op: "image_open env bs = Inr im"
    and rm: "remove env im = Inr fg" and s: "st ''selected_color'' = None \<or> color_inv st"
    by simp_all
  have "color_inv ?st"
    using s valid_presets
    by (auto simp add: run_script_state preset_buttons_def init_session_def color_inv_def)
  then obtain c where c: "?st ''selected_color'' = Some c" "valid_color c"
    by (auto simp add: color_inv_def split: option.splits)
  from hex_to_rgb_valid [OF c(2)] obtain r g b where
    h: "hex_to_rgb c = Inr (r, g, b)" and
    rg: "0 \<le> r" "r \<le> 255" "0 \<le> g" "g \<le> 255" "0 \<le> b" "b \<le> 255"
    by blast
  let ?comp = "applyBackground env fg (r, g, b)"
  have ab: "add_background env ?st fg = ?comp" by (simp add: add_background_def c(1) h)
  have ps: "processing_steps env ?st bs =
      (fst ?comp, Spinner ''Removing background...'' # snd ?comp)"
    by (simp add: processing_steps_removed [OF op rm] ab)
  have "main_area env ?st inp =
      Spinner ''Removing background...'' # snd ?comp
      @ (case fst ?comp of
           Inl e \<Rightarrow> error_report e
         | Inr ready \<Rightarrow>
             snd (display_columns env name (crop_aspect_ratio_option inp) ready)
             @ (case fst (display_columns env name (crop_aspect_ratio_option inp) ready) of
                  Inl e \<Rightarrow> error_report e
                | Inr u \<Rightarrow> []))"
  proof (cases "fst ?comp")
    case (Inl e)
    with ps have "processing_steps env ?st bs =
        (Inl e, Spinner ''Removing background...'' # snd ?comp)" by simp
    from main_area_failed [OF up this] Inl show ?thesis by simp
  next
    case (Inr ready)
    with ps have "processing_steps env ?st bs =
        (Inr ready, Spinner ''Removing background...'' # snd ?comp)" by simp
    from main_area_columns [OF up this] Inr show ?thesis by simp
  qed
  then have "snd (run_script env st inp) =
      page_controls ?st @ Spinner ''Removing background...'' # snd ?comp
      @ (case fst ?comp of
           Inl e \<Rightarrow> error_report e
         | Inr ready \<Rightarrow>
             snd (display_columns env name (crop_aspect_ratio_option inp) ready)
             @ (case fst (display_columns env name (crop_aspect_ratio_option inp) ready) of
                  Inl e \<Rightarrow> error_report e
                | Inr u \<Rightarrow> []))"
    by (simp add: run_script_calls)
  with c(1) h rg ps
  show "\<exists>c r g b. ?st ''selected_color'' = Some c
            \<and> hex_to_rgb c = Inr (r, g, b)
            \<and> 0 \<le> r \<and> r \<le> 255 \<and> 0 \<le> g \<and> g \<le> 255 \<and> 0 \<le> b \<and> b \<le> 255
            \<and> processing_steps env ?st bs =
                (fst (applyBackground env fg (r, g, b)),
                 Spinner ''Removing background...'' # snd (applyBackground env fg (r, g, b)))
            \<and> snd (run_script env st inp) =
                page_controls ?st
                @ Spinner ''Removing background...'' # snd (applyBackground env fg (r, g, b))
                @ (case fst (applyBackground env fg (r, g, b)) of
                     Inl e \<Rightarrow> error_report e
                   | Inr ready \<Rightarrow>
                       snd (display_columns env name (crop_aspect_ratio_option inp) ready)
                       @ (case fst (display_columns env name (crop_aspect_ratio_option inp) ready) of
                            Inl e \<Rightarrow> error_report e
                          | Inr u \<Rightarrow> []))"
    by blast
qed


theorem selected_color_stays_valid_witness:
  "fresh_state ''selected_color'' = None
   \<and> init_session fresh_state ''selected_color'' = Some ''#FFFFFF''
   \<and> fst (run_script sample_env fresh_state no_click) ''selected_color'' = Some ''#FFFFFF''
   \<and> color_inv (fst (run_script sample_env fresh_state click_red))
   \<and> valid_color ''#12ab9F''
   \<and> (\<exists>st'. picker_changed ''#12ab9F'' red_state = Inr st' \<and> color_inv st')
   \<and> color_inv red_state
   \<and> (\<exists>c r g b. red_state ''selected_color'' = Some c \<and> hex_to_rgb c = Inr (r, g, b)
            \<and> 0 \<le> r \<and> r \<le> 255 \<and> 0 \<le> g \<and> g \<le> 255 \<and> 0 \<le> b \<and> b \<le> 255
            \<and> add_background sample_env red_state sample_cutout
                = applyBackground sample_env sample_cutout (r, g, b))
   \<and> uploaded_file (sample_inputs ''photo.png'' [128] ''No Crop'') = Some (''photo.png'', [128])
   \<and> image_open sample_env [128] = Inr sample_decoded
   \<and> remove sample_env sample_decoded = Inr sample_cutout
   \<and> (\<exists>c r g b.
         fst (run_script sample_env fresh_state (sample_inputs ''photo.png'' [128] ''No Crop''))
           ''selected_color'' = Some c
         \<and> hex_to_rgb c = Inr (r, g, b)
         \<and> 0 \<le> r \<and> r \<le> 255 \<and> 0 \<le> g \<and> g \<le> 255 \<and> 0 \<le> b \<and> b \<le> 255
         \<and> processing_steps sample_env
             (fst (run_script sample_env fresh_state
                     (sample_inputs ''photo.png'' [128] ''No Crop''))) [128] =
             (fst (applyBackground sample_env sample_cutout (r, g, b)),
              Spinner ''Removing background...''
                # snd (applyBackground sample_env sample_cutout (r, g, b)))
         \<and> snd (run_script sample_env fresh_state (sample_inputs ''photo.png'' [128] ''No Crop'')) =
             page_controls
               (fst (run_script sample_env fresh_state
                       (sample_inputs ''photo.png'' [128] ''No Crop'')))
             @ Spinner ''Removing background...''
               # snd (applyBackground sample_env sample_cutout (r, g, b))
             @ (case fst (applyBackground sample_env sample_cutout (r, g, b)) of
                  Inl e \<Rightarrow> error_report e
                | Inr ready \<Rightarrow>
                    snd (display_columns sample_env ''photo.png''
                           (crop_aspect_ratio_option
                              (sample_inputs ''photo.png'' [128] ''No Crop'')) ready)
                    @ (case fst (display_columns sample_env ''photo.png''
                                   (crop_aspect_ratio_option
                                      (sample_inputs ''photo.png'' [128] ''No Crop'')) ready) of
                         Inl e \<Rightarrow> error_report e
                       | Inr u \<Rightarrow> [])))"
proof -
  have f: "fresh_state ''selected_color'' = None" by (simp add: fresh_state_def)
  have n: "fresh_state ''selected_color'' = None \<and> \<not> red_button no_click
      \<and> \<not> blue_button no_click \<and> \<not> white_button no_click"
    by (simp add: fresh_state_def no_click_def)
  have v: "valid_color ''#12ab9F''" by (simp add: valid_color_def digit16_def)
  have i: "color_inv red_state" by (simp add: color_inv_def red_state_def valid_presets)
  note t = selected_color_stays_valid
  note t1 = t [where st = fresh_state, THEN conjunct1, THEN mp, OF f]
  note t2 = t [where st = fresh_state and inp = no_click and env = sample_env,
      THEN conjunct2, THEN conjunct1, THEN mp, OF n]
  note t3 = t [where st = fresh_state and inp = click_red and env = sample_env,
      THEN conjunct2, THEN conjunct2, THEN conjunct1, THEN mp, OF disjI1, OF f]
  note t4 = t [where st = red_state and v = "''#12ab9F''",
      THEN conjunct2, THEN conjunct2, THEN conjunct2, THEN conjunct1, THEN mp, OF v]
  note t5 = t [where st = red_state and env = sample_env and img = sample_cutout,
      THEN conjunct2, THEN conjunct2, THEN conjunct2, THEN conjunct2, THEN conjunct1,
      THEN mp, OF i]
  have up: "uploaded_file (sample_inputs ''photo.png'' [128] ''No Crop'')
      = Some (''photo.png'', [128])"
    by (simp add: sample_inputs_def)
  have op: "image_open sample_env [128] = Inr sample_decoded" by code_simp
  have rm: "remove sample_env sample_decoded = Inr sample_cutout" by code_simp
  note t6 = t [where st = fresh_state and env = sample_env
        and inp = "sample_inputs ''photo.png'' [128] ''No Crop''",
      THEN conjunct2, THEN conjunct2, THEN conjunct2, THEN conjunct2, THEN conjunct2,
      THEN mp, OF conjI [OF up conjI [OF op conjI [OF rm disjI1 [OF f]]]]]
  show ?thesis by (intro conjI f t1 t2 t3 v t4 i t5 up op rm t6)
qed

end
